theory Spec2Isabelle
  imports Complex_Main
begin

section \<open>Python values\<close>

text \<open>
  The program is Python. Its floats are modelled as exact rationals (\<open>rat\<close>): every
  arithmetic operation is exact and there is no NaN or infinity. Strings are byte
  strings; the case mapping \<open>str.upper\<close> is modelled on ASCII letters. Values that
  travel inside dictionaries (exchange responses, order parameters, the execution
  summary) are \<open>pyval\<close>s, and a dictionary with string keys is an association list
  read with \<open>map_of\<close>.
\<close>

datatype pyval = PNone | PBool bool | PInt int | PFloat rat | PStr string

type_synonym pydict = "(string \<times> pyval) list"

datatype exc = KeyError | TypeError | ValueError | BinanceAPIException | OtherException

text \<open>\<open>d.get(k, default)\<close> and \<open>d[k]\<close>.\<close>

definition dict_get :: "pydict \<Rightarrow> string \<Rightarrow> pyval \<Rightarrow> pyval" where
  "dict_get d k dflt = (case map_of d k of None \<Rightarrow> dflt | Some v \<Rightarrow> v)"

definition dict_index :: "pydict \<Rightarrow> string \<Rightarrow> exc + pyval" where
  "dict_index d k = (case map_of d k of None \<Rightarrow> Inl KeyError | Some v \<Rightarrow> Inr v)"

text \<open>Truth value of a Python object, as tested by \<open>if x\<close> and \<open>if not x\<close>.\<close>

fun truthy :: "pyval \<Rightarrow> bool" where
  "truthy PNone = False"
| "truthy (PBool b) = b"
| "truthy (PInt i) = (i \<noteq> 0)"
| "truthy (PFloat r) = (r \<noteq> 0)"
| "truthy (PStr s) = (s \<noteq> [])"

text \<open>
  An \<open>Optional[Dict]\<close> is falsy when it is \<open>None\<close> or the empty dictionary;
  \<open>truthy_dict\<close> returns the dictionary when \<open>if order\<close> takes the true branch.
\<close>

fun truthy_dict :: "pydict option \<Rightarrow> pydict option" where
  "truthy_dict None = None"
| "truthy_dict (Some d) = (if d = [] then None else Some d)"

text \<open>
  The builtin \<open>float(x)\<close>. What \<open>float\<close> makes of a string is a matter of the Python
  runtime, not of this program, so the string parser is a parameter \<open>fs\<close>
  (\<open>None\<close> when \<open>float\<close> raises \<open>ValueError\<close>).
\<close>

fun py_float :: "(string \<Rightarrow> rat option) \<Rightarrow> pyval \<Rightarrow> exc + rat" where
  "py_float fs PNone = Inl TypeError"
| "py_float fs (PBool b) = Inr (if b then 1 else 0)"
| "py_float fs (PInt i) = Inr (of_int i)"
| "py_float fs (PFloat r) = Inr r"
| "py_float fs (PStr s) = (case fs s of None \<Rightarrow> Inl ValueError | Some r \<Rightarrow> Inr r)"

text \<open>The operator \<open>+\<close> on the values that occur here; \<open>bool\<close> counts as \<open>int\<close>.\<close>

fun py_add :: "pyval \<Rightarrow> pyval \<Rightarrow> exc + pyval" where
  "py_add (PInt a) (PInt b) = Inr (PInt (a + b))"
| "py_add (PInt a) (PBool b) = Inr (PInt (a + (if b then 1 else 0)))"
| "py_add (PBool a) (PInt b) = Inr (PInt ((if a then 1 else 0) + b))"
| "py_add (PBool a) (PBool b) = Inr (PInt ((if a then 1 else 0) + (if b then 1 else 0)))"
| "py_add (PInt a) (PFloat b) = Inr (PFloat (of_int a + b))"
| "py_add (PFloat a) (PInt b) = Inr (PFloat (a + of_int b))"
| "py_add (PBool a) (PFloat b) = Inr (PFloat ((if a then 1 else 0) + b))"
| "py_add (PFloat a) (PBool b) = Inr (PFloat (a + (if b then 1 else 0)))"
| "py_add (PFloat a) (PFloat b) = Inr (PFloat (a + b))"
| "py_add (PStr a) (PStr b) = Inr (PStr (a @ b))"
| "py_add _ _ = Inl TypeError"

text \<open>\<open>sum(values)\<close>: a left fold of \<open>+\<close> from the integer 0.\<close>

fun py_sum_from :: "pyval \<Rightarrow> pyval list \<Rightarrow> exc + pyval" where
  "py_sum_from acc [] = Inr acc"
| "py_sum_from acc (x # xs) =
     (case py_add acc x of Inl e \<Rightarrow> Inl e | Inr acc' \<Rightarrow> py_sum_from acc' xs)"

definition py_sum :: "pyval list \<Rightarrow> exc + pyval" where
  "py_sum xs = py_sum_from (PInt 0) xs"

text \<open>\<open>x - y\<close> for a float \<open>x\<close>.\<close>

fun float_sub :: "rat \<Rightarrow> pyval \<Rightarrow> exc + rat" where
  "float_sub x (PInt i) = Inr (x - of_int i)"
| "float_sub x (PFloat r) = Inr (x - r)"
| "float_sub x (PBool b) = Inr (x - (if b then 1 else 0))"
| "float_sub x _ = Inl TypeError"

text \<open>Evaluating a list of fallible computations in order, stopping at the first raise.\<close>

fun sequence_exc :: "(exc + 'a) list \<Rightarrow> exc + 'a list" where
  "sequence_exc [] = Inr []"
| "sequence_exc (x # xs) =
     (case x of Inl e \<Rightarrow> Inl e
      | Inr v \<Rightarrow> (case sequence_exc xs of Inl e \<Rightarrow> Inl e | Inr vs \<Rightarrow> Inr (v # vs)))"

text \<open>\<open>sum(float(order.get(key, 0)) for order in orders)\<close>.\<close>

definition float_sum :: "(string \<Rightarrow> rat option) \<Rightarrow> string \<Rightarrow> pydict list \<Rightarrow> exc + rat" where
  "float_sum fs key orders =
     (case sequence_exc (map (\<lambda>order. py_float fs (dict_get order key (PInt 0))) orders) of
        Inl e \<Rightarrow> Inl e
      | Inr xs \<Rightarrow> Inr (sum_list xs))"



text \<open>\<open>x or default\<close> for an optional integer: \<open>None\<close> and 0 are falsy.\<close>

definition int_or :: "int option \<Rightarrow> int \<Rightarrow> int" where
  "int_or x dflt = (case x of None \<Rightarrow> dflt | Some n \<Rightarrow> if n = 0 then dflt else n)"


text \<open>\<open>range(n)\<close>.\<close>

definition py_range :: "int \<Rightarrow> int list" where
  "py_range n = map int [0..<nat n]"

text \<open>\<open>str.upper\<close> on ASCII, \<open>str.endswith\<close>.\<close>

definition upper_char :: "char \<Rightarrow> char" where
  "upper_char c =
     (if (97::nat) \<le> of_char c \<and> of_char c \<le> (122::nat) then char_of (of_char c - (32::nat)) else c)"

definition upper :: "string \<Rightarrow> string" where
  "upper s = map upper_char s"

definition endswith :: "string \<Rightarrow> string \<Rightarrow> bool" where
  "endswith s suf = (length suf \<le> length s \<and> drop (length s - length suf) s = suf)"

text \<open>
  \<open>re.match(r'^[A-Z0-9]+$', s)\<close>. In Python's \<open>re\<close>, \<open>$\<close> matches at the end of the
  string and also just before a newline that ends the string.
\<close>

definition is_upper_alnum :: "char \<Rightarrow> bool" where
  "is_upper_alnum c =
     (((65::nat) \<le> of_char c \<and> of_char c \<le> (90::nat)) \<or> ((48::nat) \<le> of_char c \<and> of_char c \<le> (57::nat)))"

definition re_match_upper_alnum :: "string \<Rightarrow> bool" where
  "re_match_upper_alnum s =
     (let body = (if s \<noteq> [] \<and> last s = CHR 0x0A then butlast s else s)
      in body \<noteq> [] \<and> list_all is_upper_alnum body)"

text \<open>
  \<open>round(x, ndigits)\<close> on a float: the nearest multiple of \<open>10^(-ndigits)\<close>, a tie going
  to the even multiple.
\<close>

definition round_half_even :: "rat \<Rightarrow> int" where
  "round_half_even x =
     (let f = \<lfloor>x\<rfloor>; d = x - of_int f
      in if d < 1 / 2 then f else if 1 / 2 < d then f + 1 else if even f then f else f + 1)"

definition py_round :: "rat \<Rightarrow> int \<Rightarrow> rat" where
  "py_round x ndigits = of_int (round_half_even (x * power_int 10 ndigits)) / power_int 10 ndigits"

section \<open>Validator (src/validator.py)\<close>

text \<open>
  \<open>OrderValidator.__init__\<close> copies six settings out of the configuration; the record
  holds them. A check returns \<open>(is_valid, error_message)\<close>. The messages that Python
  builds with f-strings are kept as their template text: the interpolated numbers
  are not rendered.
\<close>

record validator =
  min_order_size :: rat
  max_order_size :: rat
  min_price :: rat
  max_price :: rat
  price_precision :: int
  quantity_precision :: int

definition validate_symbol :: "string \<Rightarrow> bool \<times> string option" where
  "validate_symbol symbol =
     (if symbol = [] then (False, Some ''Symbol cannot be empty'')
      else if \<not> re_match_upper_alnum symbol
        then (False, Some ''Symbol must contain only uppercase letters and numbers'')
      else if \<not> endswith symbol ''USDT''
        then (False, Some ''Symbol must end with USDT for USDT-M futures'')
      else if length symbol < 6 then (False, Some ''Symbol too short'')
      else (True, None))"

definition validate_quantity :: "validator \<Rightarrow> rat \<Rightarrow> rat option \<Rightarrow> bool \<times> string option" where
  "validate_quantity v quantity price =
     (if quantity \<le> 0 then (False, Some ''Quantity must be greater than 0'')
      else case price of
        None \<Rightarrow> (True, None)
      | Some p \<Rightarrow>
          (let notional_value = quantity * p
           in if notional_value < min_order_size v
                then (False, Some ''Order value ({notional_value:.2f} USDT) below minimum ({self.min_order_size} USDT)'')
              else if max_order_size v < notional_value
                then (False, Some ''Order value ({notional_value:.2f} USDT) exceeds maximum ({self.max_order_size} USDT)'')
              else (True, None)))"

definition validate_price :: "validator \<Rightarrow> rat \<Rightarrow> bool \<times> string option" where
  "validate_price v price =
     (if price \<le> 0 then (False, Some ''Price must be greater than 0'')
      else if price < min_price v
        then (False, Some ''Price ({price}) below minimum ({self.min_price})'')
      else if max_price v < price
        then (False, Some ''Price ({price}) exceeds maximum ({self.max_price})'')
      else (True, None))"

definition validate_side :: "string \<Rightarrow> bool \<times> string option" where
  "validate_side side =
     (let valid_sides = [''BUY'', ''SELL'']; side_upper = upper side
      in if side_upper \<notin> set valid_sides
           then (False, Some ''Side must be one of {valid_sides}'')
         else (True, None))"

definition validate_time_in_force :: "string \<Rightarrow> bool \<times> string option" where
  "validate_time_in_force time_in_force =
     (let valid_tif = [''GTC'', ''IOC'', ''FOK'']; tif_upper = upper time_in_force
      in if tif_upper \<notin> set valid_tif
           then (False, Some ''Time in force must be one of {valid_tif}'')
         else (True, None))"

definition validate_grid_parameters :: "validator \<Rightarrow> rat \<Rightarrow> rat \<Rightarrow> int \<Rightarrow> bool \<times> string option" where
  "validate_grid_parameters v lower_price upper_price grid_levels =
     (if \<not> fst (validate_price v lower_price) then (False, Some ''Lower price invalid: {error}'')
      else if \<not> fst (validate_price v upper_price) then (False, Some ''Upper price invalid: {error}'')
      else if upper_price \<le> lower_price
        then (False, Some ''Upper price must be greater than lower price'')
      else if grid_levels < 2 then (False, Some ''Grid levels must be at least 2'')
      else if 100 < grid_levels then (False, Some ''Grid levels cannot exceed 100'')
      else (True, None))"


text \<open>
  \<open>format_price\<close> and \<open>format_quantity\<close>: \<open>round\<close> on a float with an integer number
  of digits raises neither \<open>ValueError\<close> nor \<open>InvalidOperation\<close>, so the \<open>except\<close>
  branch is never taken.
\<close>

definition format_price :: "validator \<Rightarrow> rat \<Rightarrow> rat" where
  "format_price v price = py_round price (price_precision v)"

definition format_quantity :: "validator \<Rightarrow> rat \<Rightarrow> rat" where
  "format_quantity v quantity = py_round quantity (quantity_precision v)"

section \<open>The exchange client and the logger\<close>

text \<open>
  The exchange client is an external collaborator. The program issues three kinds of
  request; each either returns a dictionary or raises. A client is modelled as a
  function from the requests issued so far and the current request to the reply, so
  that it may answer the same request differently at different times. The world
  records every request issued and every log record emitted, oldest first.
  A log record is its level and its message; \<open>log_order\<close>, \<open>log_api_call\<close> and
  \<open>log_error_trace\<close> (src/logger.py) emit at level INFO, DEBUG or WARNING, and ERROR,
  and their messages are cut after the fixed leading part.
\<close>

datatype call =
    FuturesCreateOrder pydict
  | FuturesCancelOrder string pyval
  | FuturesSymbolTicker string

type_synonym client = "call list \<Rightarrow> call \<Rightarrow> exc + pydict"

datatype level = DEBUG | INFO | WARNING | ERROR

record world =
  calls :: "call list"
  logs :: "(level \<times> string) list"

definition request :: "client \<Rightarrow> call \<Rightarrow> world \<Rightarrow> (exc + pydict) \<times> world" where
  "request cl c w = (cl (calls w) c, w\<lparr>calls := calls w @ [c]\<rparr>)"

definition emit :: "level \<Rightarrow> string \<Rightarrow> world \<Rightarrow> world" where
  "emit l m w = w\<lparr>logs := logs w @ [(l, m)]\<rparr>"

definition log_order :: "string \<Rightarrow> string \<Rightarrow> world \<Rightarrow> world" where
  "log_order action order_type w = emit INFO (''['' @ action @ ''] '' @ order_type) w"

definition log_error_trace :: "string \<Rightarrow> world \<Rightarrow> world" where
  "log_error_trace context w = emit ERROR (''Error in '' @ context) w"

definition log_api_call :: "string \<Rightarrow> string \<Rightarrow> string \<Rightarrow> world \<Rightarrow> world" where
  "log_api_call endpoint method status w =
     emit (if status = ''SUCCESS'' then DEBUG else WARNING)
       (''[API] '' @ method @ '' '' @ endpoint @ '' | Status: '' @ status) w"

text \<open>How an f-string renders the optional error message of a check.\<close>

fun fmt_error :: "string option \<Rightarrow> string" where
  "fmt_error None = ''None''"
| "fmt_error (Some m) = m"

section \<open>Primitive order executor (src/market_orders.py, src/limit_orders.py)\<close>

text \<open>
  What every \<open>place_*\<close> method does once the request has been sent: the response is
  returned as it is; \<open>BinanceAPIException\<close> and any other exception are logged and
  turned into \<open>None\<close>. \<open>api_logged\<close> tells the two methods of \<open>MarketOrderExecutor\<close>,
  which also call \<open>log_api_call\<close>, from those of \<open>LimitOrderExecutor\<close>, which have a
  single \<open>except Exception\<close>.
\<close>

definition send_order ::
  "client \<Rightarrow> string \<Rightarrow> string \<Rightarrow> bool \<Rightarrow> pydict \<Rightarrow> world \<Rightarrow> pydict option \<times> world" where
  "send_order cl method_name order_type api_logged order_params w =
     (let w = log_order ''PLACING'' order_type w;
          (reply, w) = request cl (FuturesCreateOrder order_params) w
      in case reply of
           Inr order \<Rightarrow>
             (let w = log_order ''PLACED'' order_type w;
                  w = (if api_logged then log_api_call ''/fapi/v1/order'' ''POST'' ''SUCCESS'' w else w)
              in (Some order, w))
         | Inl e \<Rightarrow>
             (let w = log_error_trace method_name w;
                  w = (if api_logged \<and> e = BinanceAPIException
                       then log_api_call ''/fapi/v1/order'' ''POST'' ''FAILED'' w else w)
              in (None, w)))"


definition place_limit_order ::
  "validator \<Rightarrow> client \<Rightarrow> string \<Rightarrow> string \<Rightarrow> rat \<Rightarrow> rat \<Rightarrow> string \<Rightarrow> bool \<Rightarrow> bool \<Rightarrow> world
     \<Rightarrow> pydict option \<times> world" where
  "place_limit_order v cl symbol side quantity price time_in_force reduce_only post_only w =
     (let (is_valid, error) = validate_symbol symbol in
      if \<not> is_valid then (None, emit ERROR (''Invalid symbol: '' @ fmt_error error) w) else
      let (is_valid, error) = validate_side side in
      if \<not> is_valid then (None, emit ERROR (''Invalid side: '' @ fmt_error error) w) else
      let (is_valid, error) = validate_price v price in
      if \<not> is_valid then (None, emit ERROR (''Invalid price: '' @ fmt_error error) w) else
      let (is_valid, error) = validate_quantity v quantity (Some price) in
      if \<not> is_valid then (None, emit ERROR (''Invalid quantity: '' @ fmt_error error) w) else
      let (is_valid, error) = validate_time_in_force time_in_force in
      if \<not> is_valid then (None, emit ERROR (''Invalid time in force: '' @ fmt_error error) w) else
      let price = format_price v price;
          quantity = format_quantity v quantity;
          order_params =
            [(''symbol'', PStr symbol), (''side'', PStr (upper side)), (''type'', PStr ''LIMIT''),
             (''quantity'', PFloat quantity), (''price'', PFloat price),
             (''timeInForce'', PStr (upper time_in_force)), (''reduceOnly'', PBool reduce_only)];
          order_params = (if post_only then order_params @ [(''postOnly'', PBool True)] else order_params)
      in send_order cl ''place_limit_order'' ''LIMIT'' True order_params w)"

definition cancel_order :: "client \<Rightarrow> string \<Rightarrow> pyval \<Rightarrow> world \<Rightarrow> bool \<times> world" where
  "cancel_order cl symbol order_id w =
     (let w = emit INFO ''Cancelling order {order_id} for {symbol}'' w;
          (reply, w) = request cl (FuturesCancelOrder symbol order_id) w
      in case reply of
           Inr result \<Rightarrow>
             (True, log_api_call ''/fapi/v1/order'' ''DELETE'' ''SUCCESS''
                      (emit INFO ''Order {order_id} cancelled successfully'' w))
         | Inl e \<Rightarrow>
             (let w = log_error_trace ''cancel_order'' w;
                  w = (if e = BinanceAPIException
                       then log_api_call ''/fapi/v1/order'' ''DELETE'' ''FAILED'' w else w)
              in (False, w)))"

definition place_stop_market_order ::
  "validator \<Rightarrow> client \<Rightarrow> string \<Rightarrow> string \<Rightarrow> rat \<Rightarrow> rat \<Rightarrow> bool \<Rightarrow> world \<Rightarrow> pydict option \<times> world" where
  "place_stop_market_order v cl symbol side quantity stop_price reduce_only w =
     (let (is_valid, error) = validate_symbol symbol in
      if \<not> is_valid then (None, emit ERROR (''Invalid symbol: '' @ fmt_error error) w) else
      let (is_valid, error) = validate_side side in
      if \<not> is_valid then (None, emit ERROR (''Invalid side: '' @ fmt_error error) w) else
      let (is_valid, error) = validate_price v stop_price in
      if \<not> is_valid then (None, emit ERROR (''Invalid stop price: '' @ fmt_error error) w) else
      let (is_valid, error) = validate_quantity v quantity None in
      if \<not> is_valid then (None, emit ERROR (''Invalid quantity: '' @ fmt_error error) w) else
      let stop_price = format_price v stop_price;
          quantity = format_quantity v quantity
      in send_order cl ''place_stop_market_order'' ''STOP_MARKET'' False
           [(''symbol'', PStr symbol), (''side'', PStr (upper side)), (''type'', PStr ''STOP_MARKET''),
            (''quantity'', PFloat quantity), (''stopPrice'', PFloat stop_price),
            (''reduceOnly'', PBool reduce_only)] w)"

definition place_take_profit_order ::
  "validator \<Rightarrow> client \<Rightarrow> string \<Rightarrow> string \<Rightarrow> rat \<Rightarrow> rat \<Rightarrow> rat option \<Rightarrow> bool \<Rightarrow> world
     \<Rightarrow> pydict option \<times> world" where
  "place_take_profit_order v cl symbol side quantity stop_price price reduce_only w =
     (let (is_valid, error) = validate_symbol symbol in
      if \<not> is_valid then (None, emit ERROR (''Invalid symbol: '' @ fmt_error error) w) else
      let (is_valid, error) = validate_side side in
      if \<not> is_valid then (None, emit ERROR (''Invalid side: '' @ fmt_error error) w) else
      let (is_valid, error) = validate_price v stop_price in
      if \<not> is_valid then (None, emit ERROR (''Invalid stop price: '' @ fmt_error error) w) else
      let (is_valid, error) = validate_quantity v quantity None in
      if \<not> is_valid then (None, emit ERROR (''Invalid quantity: '' @ fmt_error error) w) else
      let stop_price = format_price v stop_price;
          quantity = format_quantity v quantity;
          order_type = (if price = None then ''TAKE_PROFIT_MARKET'' else ''TAKE_PROFIT'');
          order_params =
            [(''symbol'', PStr symbol), (''side'', PStr (upper side)), (''type'', PStr order_type),
             (''quantity'', PFloat quantity), (''stopPrice'', PFloat stop_price),
             (''reduceOnly'', PBool reduce_only)];
          order_params =
            (case price of
               None \<Rightarrow> order_params
             | Some p \<Rightarrow> order_params @ [(''price'', PFloat (format_price v p)), (''timeInForce'', PStr ''GTC'')])
      in send_order cl ''place_take_profit_order'' order_type False order_params w)"

text \<open>
  \<open>ticker = self.client.futures_symbol_ticker(symbol=symbol)\<close> followed by
  \<open>current_price = float(ticker['price'])\<close>, as the TWAP scheduler and the grid
  builder both do.
\<close>

definition fetch_current_price ::
  "(string \<Rightarrow> rat option) \<Rightarrow> client \<Rightarrow> string \<Rightarrow> world \<Rightarrow> (exc + rat) \<times> world" where
  "fetch_current_price fs cl symbol w =
     (let (reply, w) = request cl (FuturesSymbolTicker symbol) w
      in case reply of
           Inl e \<Rightarrow> (Inl e, w)
         | Inr ticker \<Rightarrow>
             (case dict_index ticker ''price'' of
                Inl e \<Rightarrow> (Inl e, w)
              | Inr p \<Rightarrow> (py_float fs p, w)))"

section \<open>OCO coordinator (src/advanced/oco.py)\<close>

text \<open>
  The \<open>try\<close> block of \<open>place_oco_order\<close>. A \<open>KeyError\<close> from \<open>tp_order['orderId']\<close> or
  \<open>sl_order['orderId']\<close> is caught by the \<open>except\<close> of the method. The parameter
  \<open>entry_price\<close> of the method is never read and is left out.
\<close>

definition place_oco_legs ::
  "validator \<Rightarrow> client \<Rightarrow> string \<Rightarrow> string \<Rightarrow> rat \<Rightarrow> rat \<Rightarrow> rat \<Rightarrow> world
     \<Rightarrow> (pydict \<times> pydict) option \<times> world" where
  "place_oco_legs v cl symbol side quantity take_profit_price stop_loss_price w =
     (let w = emit INFO ''Placing OCO order for {symbol}: TP={take_profit_price}, SL={stop_loss_price}'' w;
          (tp_order, w) = place_take_profit_order v cl symbol side quantity take_profit_price None True w
      in case truthy_dict tp_order of
           None \<Rightarrow> (None, emit ERROR ''Failed to place take profit order'' w)
         | Some tp \<Rightarrow>
             (let (sl_order, w) = place_stop_market_order v cl symbol side quantity stop_loss_price True w
              in case truthy_dict sl_order of
                   None \<Rightarrow>
                     (let w = emit ERROR ''Failed to place stop loss order, cancelling take profit'' w
                      in case dict_index tp ''orderId'' of
                           Inl e \<Rightarrow> (None, log_error_trace ''place_oco_order'' w)
                         | Inr order_id \<Rightarrow> (None, snd (cancel_order cl symbol order_id w)))
                 | Some sl \<Rightarrow>
                     (case (dict_index tp ''orderId'', dict_index sl ''orderId'') of
                        (Inr tp_id, Inr sl_id) \<Rightarrow>
                          (Some (tp, sl),
                           emit INFO ''OCO order placed successfully: TP Order ID: {tp_id}, SL Order ID: {sl_id}'' w)
                      | _ \<Rightarrow> (None, log_error_trace ''place_oco_order'' w))))"

definition place_oco_order ::
  "validator \<Rightarrow> client \<Rightarrow> string \<Rightarrow> string \<Rightarrow> rat \<Rightarrow> rat \<Rightarrow> rat \<Rightarrow> world
     \<Rightarrow> (pydict \<times> pydict) option \<times> world" where
  "place_oco_order v cl symbol side quantity take_profit_price stop_loss_price w =
     (let (is_valid, error) = validate_symbol symbol in
      if \<not> is_valid then (None, emit ERROR (''Invalid symbol: '' @ fmt_error error) w) else
      let (is_valid, error) = validate_side side in
      if \<not> is_valid then (None, emit ERROR (''Invalid side: '' @ fmt_error error) w) else
      let (is_valid, error) = validate_quantity v quantity None in
      if \<not> is_valid then (None, emit ERROR (''Invalid quantity: '' @ fmt_error error) w) else
      let (is_valid, error) = validate_price v take_profit_price in
      if \<not> is_valid then (None, emit ERROR (''Invalid take profit price: '' @ fmt_error error) w) else
      let (is_valid, error) = validate_price v stop_loss_price in
      if \<not> is_valid then (None, emit ERROR (''Invalid stop loss price: '' @ fmt_error error) w) else
      let side_upper = upper side in
      if side_upper = ''SELL'' then
        (if take_profit_price \<le> stop_loss_price
           then (None, emit ERROR ''For SELL orders: take profit must be above stop loss'' w)
         else place_oco_legs v cl symbol side quantity take_profit_price stop_loss_price w)
      else
        (if stop_loss_price \<le> take_profit_price
           then (None, emit ERROR ''For BUY orders: stop loss must be above take profit'' w)
         else place_oco_legs v cl symbol side quantity take_profit_price stop_loss_price w))"

section \<open>TWAP scheduler (src/advanced/twap.py)\<close>


text \<open>
  "Adjust last chunk to account for rounding". The synchronous method adds the
  \<open>executedQty\<close> fields as they are; the asynchronous one converts each with \<open>float\<close>.
\<close>

definition last_chunk_size :: "validator \<Rightarrow> rat \<Rightarrow> pydict list \<Rightarrow> exc + rat" where
  "last_chunk_size v total_quantity executed_orders =
     (case py_sum (map (\<lambda>order. dict_get order ''executedQty'' (PInt 0)) executed_orders) of
        Inl e \<Rightarrow> Inl e
      | Inr executed_qty \<Rightarrow>
          (case float_sub total_quantity executed_qty of
             Inl e \<Rightarrow> Inl e
           | Inr chunk_size \<Rightarrow> Inr (format_quantity v chunk_size)))"

definition last_chunk_size_async ::
  "(string \<Rightarrow> rat option) \<Rightarrow> validator \<Rightarrow> rat \<Rightarrow> pydict list \<Rightarrow> exc + rat" where
  "last_chunk_size_async fs v total_quantity executed_orders =
     (case float_sum fs ''executedQty'' executed_orders of
        Inl e \<Rightarrow> Inl e
      | Inr executed_qty \<Rightarrow> Inr (format_quantity v (total_quantity - executed_qty)))"









section \<open>Grid builder (src/advanced/grid_strategy.py)\<close>

record grid_config =
  default_grid_levels :: int
  min_spacing :: rat
  max_spacing :: rat

text \<open>The dictionary that \<open>create_grid_orders\<close> returns has ten fixed keys.\<close>

record grid_result =
  r_symbol :: string
  r_mode :: string
  r_grid_levels :: int
  r_lower_price :: rat
  r_upper_price :: rat
  r_current_price :: rat
  r_grid_prices :: "rat list"
  r_buy_orders :: "pydict list"
  r_sell_orders :: "pydict list"
  r_total_orders :: int

text \<open>"Generate grid levels".\<close>

definition generate_grid_prices :: "validator \<Rightarrow> rat \<Rightarrow> rat \<Rightarrow> int \<Rightarrow> rat list" where
  "generate_grid_prices v lower_price grid_spacing grid_levels =
     map (\<lambda>i. format_price v (lower_price + of_int i * grid_spacing)) (py_range grid_levels)"

text \<open>
  The bodies of the three placement loops. The loop state is \<open>buy_orders\<close>,
  \<open>sell_orders\<close> and the world; \<open>place_limit_order\<close> catches every exception, so
  no iteration raises.
\<close>

definition neutral_level ::
  "validator \<Rightarrow> client \<Rightarrow> string \<Rightarrow> rat \<Rightarrow> rat \<Rightarrow> rat \<Rightarrow> pydict list \<times> pydict list \<times> world
     \<Rightarrow> pydict list \<times> pydict list \<times> world" where
  "neutral_level v cl symbol qty_per_level current_price price s =
     (case s of (buy_orders, sell_orders, w) \<Rightarrow>
        if price < current_price then
          (let (order, w) = place_limit_order v cl symbol ''BUY'' qty_per_level price ''GTC'' False True w
           in case truthy_dict order of
                Some d \<Rightarrow> (buy_orders @ [d], sell_orders, w)
              | None \<Rightarrow> (buy_orders, sell_orders, w))
        else if current_price < price then
          (let (order, w) = place_limit_order v cl symbol ''SELL'' qty_per_level price ''GTC'' False True w
           in case truthy_dict order of
                Some d \<Rightarrow> (buy_orders, sell_orders @ [d], w)
              | None \<Rightarrow> (buy_orders, sell_orders, w))
        else s)"

definition long_level ::
  "validator \<Rightarrow> client \<Rightarrow> string \<Rightarrow> rat \<Rightarrow> rat \<Rightarrow> rat \<Rightarrow> pydict list \<times> pydict list \<times> world
     \<Rightarrow> pydict list \<times> pydict list \<times> world" where
  "long_level v cl symbol qty_per_level current_price price s =
     (case s of (buy_orders, sell_orders, w) \<Rightarrow>
        if price \<le> current_price then
          (let (order, w) = place_limit_order v cl symbol ''BUY'' qty_per_level price ''GTC'' False True w
           in case truthy_dict order of
                Some d \<Rightarrow> (buy_orders @ [d], sell_orders, w)
              | None \<Rightarrow> (buy_orders, sell_orders, w))
        else s)"

definition short_level ::
  "validator \<Rightarrow> client \<Rightarrow> string \<Rightarrow> rat \<Rightarrow> rat \<Rightarrow> rat \<Rightarrow> pydict list \<times> pydict list \<times> world
     \<Rightarrow> pydict list \<times> pydict list \<times> world" where
  "short_level v cl symbol qty_per_level current_price price s =
     (case s of (buy_orders, sell_orders, w) \<Rightarrow>
        if current_price \<le> price then
          (let (order, w) = place_limit_order v cl symbol ''SELL'' qty_per_level price ''GTC'' False True w
           in case truthy_dict order of
                Some d \<Rightarrow> (buy_orders, sell_orders @ [d], w)
              | None \<Rightarrow> (buy_orders, sell_orders, w))
        else s)"

text \<open>"Place grid orders based on mode": a mode other than the three named ones runs no loop.\<close>

definition place_grid_levels ::
  "validator \<Rightarrow> client \<Rightarrow> string \<Rightarrow> rat \<Rightarrow> rat \<Rightarrow> string \<Rightarrow> rat list \<Rightarrow> world
     \<Rightarrow> pydict list \<times> pydict list \<times> world" where
  "place_grid_levels v cl symbol qty_per_level current_price mode grid_prices w =
     (if mode = ''neutral''
        then fold (neutral_level v cl symbol qty_per_level current_price) grid_prices ([], [], w)
      else if mode = ''long''
        then fold (long_level v cl symbol qty_per_level current_price) grid_prices ([], [], w)
      else if mode = ''short''
        then fold (short_level v cl symbol qty_per_level current_price) grid_prices ([], [], w)
      else ([], [], w))"

definition create_grid_orders ::
  "(string \<Rightarrow> rat option) \<Rightarrow> validator \<Rightarrow> grid_config \<Rightarrow> client \<Rightarrow> string \<Rightarrow> rat \<Rightarrow> rat \<Rightarrow> rat
     \<Rightarrow> int option \<Rightarrow> string \<Rightarrow> world \<Rightarrow> grid_result option \<times> world" where
  "create_grid_orders fs v gc cl symbol lower_price upper_price total_quantity grid_levels mode w =
     (let grid_levels = int_or grid_levels (default_grid_levels gc);
          (is_valid, error) = validate_grid_parameters v lower_price upper_price grid_levels in
      if \<not> is_valid then (None, emit ERROR (''Invalid grid parameters: '' @ fmt_error error) w) else
      let (is_valid, error) = validate_symbol symbol in
      if \<not> is_valid then (None, emit ERROR (''Invalid symbol: '' @ fmt_error error) w) else
      let price_range = upper_price - lower_price;
          grid_spacing = price_range / of_int (grid_levels - 1);
          spacing_percent = (grid_spacing / lower_price) * 100 in
      if spacing_percent < min_spacing gc
        then (None, emit ERROR ''Grid spacing ({spacing_percent:.2f}%) below minimum ({self.min_spacing}%)'' w)
      else
      let w = (if max_spacing gc < spacing_percent
               then emit WARNING ''Grid spacing ({spacing_percent:.2f}%) above recommended maximum ({self.max_spacing}%)'' w
               else w);
          qty_per_level = total_quantity / of_int grid_levels;
          qty_per_level = format_quantity v qty_per_level;
          w = emit INFO ''Creating grid for {symbol}: Range: {lower_price}-{upper_price}, Levels: {grid_levels}, Spacing: {grid_spacing:.2f} ({spacing_percent:.2f}%), Qty/Level: {qty_per_level}'' w;
          grid_prices = generate_grid_prices v lower_price grid_spacing grid_levels;
          (fetched, w) = fetch_current_price fs cl symbol w
      in case fetched of
           Inl e \<Rightarrow> (None, log_error_trace ''get_current_price'' w)
         | Inr current_price \<Rightarrow>
             (let w = emit INFO ''Current price: {current_price}'' w;
                  (buy_orders, sell_orders, w) =
                    place_grid_levels v cl symbol qty_per_level current_price mode grid_prices w;
                  w = emit INFO ''Grid created: {len(buy_orders)} buy orders, {len(sell_orders)} sell orders'' w
              in (Some \<lparr>r_symbol = symbol, r_mode = mode, r_grid_levels = grid_levels,
                        r_lower_price = lower_price, r_upper_price = upper_price,
                        r_current_price = current_price, r_grid_prices = grid_prices,
                        r_buy_orders = buy_orders, r_sell_orders = sell_orders,
                        r_total_orders = int (length buy_orders) + int (length sell_orders)\<rparr>, w)))"

section \<open>Observing an execution\<close>


text \<open>Numbers among the Python values, and the number such a value stands for.\<close>

fun numeric :: "pyval \<Rightarrow> bool" where
  "numeric (PInt i) = True"
| "numeric (PFloat r) = True"
| "numeric (PBool b) = True"
| "numeric PNone = False"
| "numeric (PStr s) = False"

fun num_value :: "pyval \<Rightarrow> rat" where
  "num_value (PInt i) = of_int i"
| "num_value (PFloat r) = r"
| "num_value (PBool b) = (if b then 1 else 0)"
| "num_value PNone = 0"
| "num_value (PStr s) = 0"





text \<open>How often a record occurs in a log.\<close>

definition count_records :: "level \<times> string \<Rightarrow> (level \<times> string) list \<Rightarrow> nat" where
  "count_records r ls = length (filter (\<lambda>x. x = r) ls)"

section \<open>Default settings and sample exchanges\<close>

text \<open>
  The defaults that the three constructors fall back to when the configuration is
  silent (\<open>config.get(key, default)\<close>).
\<close>

definition default_validator :: validator where
  "default_validator =
     \<lparr>min_order_size = 5, max_order_size = 100000, min_price = 1 / 100, max_price = 1000000,
      price_precision = 2, quantity_precision = 3\<rparr>"


definition default_grid_config :: grid_config where
  "default_grid_config = \<lparr>default_grid_levels = 10, min_spacing = 1 / 2, max_spacing = 5\<rparr>"

definition empty_world :: world where
  "empty_world = \<lparr>calls = [], logs = []\<rparr>"

text \<open>
  Sample exchanges for running the model. \<open>filling_exchange\<close> answers a ticker
  request with the given price and fills every order completely at that price;
  \<open>acknowledging_exchange\<close> accepts every order without filling it (status NEW);
  \<open>failing_on ns\<close> makes an exchange raise at the requests whose position in the
  request history is listed in \<open>ns\<close>.
\<close>

definition filling_exchange :: "rat \<Rightarrow> client" where
  "filling_exchange p h c =
     (case c of
        FuturesSymbolTicker s \<Rightarrow> Inr [(''symbol'', PStr s), (''price'', PFloat p)]
      | FuturesCreateOrder params \<Rightarrow>
          Inr [(''orderId'', PInt (int (length h))), (''status'', PStr ''FILLED''),
               (''executedQty'', PFloat (num_value (dict_get params ''quantity'' (PInt 0)))),
               (''avgPrice'', PFloat p)]
      | FuturesCancelOrder s order_id \<Rightarrow> Inr [(''orderId'', order_id), (''status'', PStr ''CANCELED'')])"


definition failing_on :: "nat list \<Rightarrow> client \<Rightarrow> client" where
  "failing_on ns cl h c = (if length h \<in> set ns then Inl BinanceAPIException else cl h c)"

definition no_float_of_string :: "string \<Rightarrow> rat option" where
  "no_float_of_string s = None"

section \<open>Properties of the symbol check\<close>

lemma endswith_USDT_last: "endswith s ''USDT'' \<Longrightarrow> s \<noteq> [] \<and> last s = CHR ''T''"
  unfolding endswith_def by (cases s rule: rev_cases) auto

lemma re_match_upper_alnum_plain:
  "endswith s ''USDT'' \<Longrightarrow> re_match_upper_alnum s = list_all is_upper_alnum s"
  using endswith_USDT_last[of s] by (auto simp: re_match_upper_alnum_def)

text \<open>
  Claim C9. \<open>validate_symbol\<close> accepts a string exactly when it is not empty, matches
  \<open>^[A-Z0-9]+$\<close>, ends with \<open>USDT\<close> (the quote asset, a constant of the code) and has
  at least six characters. Because an accepted string ends with \<open>T\<close>, the newline
  that \<open>$\<close> tolerates never matters: the accepted strings are those made of
  \<open>A-Z\<close> and \<open>0-9\<close> only. Every rejection is \<open>(False, reason)\<close>. The four strings of
  the specification are accepted or rejected as it says.
\<close>

theorem validate_symbol_accepts_iff:
  "(validate_symbol s = (True, None) \<longleftrightarrow>
      s \<noteq> [] \<and> re_match_upper_alnum s \<and> endswith s ''USDT'' \<and> 6 \<le> length s) \<and>
   (validate_symbol s = (True, None) \<longleftrightarrow>
      list_all is_upper_alnum s \<and> endswith s ''USDT'' \<and> 6 \<le> length s) \<and>
   (validate_symbol s = (True, None) \<or> (\<exists>reason. validate_symbol s = (False, Some reason))) \<and>
   validate_symbol ''BTCUSDT'' = (True, None) \<and>
   validate_symbol ''btcusdt'' = (False, Some ''Symbol must contain only uppercase letters and numbers'') \<and>
   validate_symbol ''BTC'' = (False, Some ''Symbol must end with USDT for USDT-M futures'') \<and>
   validate_symbol ''BTC-USDT'' = (False, Some ''Symbol must contain only uppercase letters and numbers'')"
proof -
  have a: "validate_symbol s = (True, None) \<longleftrightarrow>
      s \<noteq> [] \<and> re_match_upper_alnum s \<and> endswith s ''USDT'' \<and> 6 \<le> length s"
    by (simp add: validate_symbol_def)
  have b: "validate_symbol s = (True, None) \<longleftrightarrow>
      list_all is_upper_alnum s \<and> endswith s ''USDT'' \<and> 6 \<le> length s"
    unfolding a using endswith_USDT_last[of s] re_match_upper_alnum_plain[of s] by auto
  have c: "validate_symbol s = (True, None) \<or> (\<exists>reason. validate_symbol s = (False, Some reason))"
    by (simp add: validate_symbol_def)
  have d: "validate_symbol ''BTCUSDT'' = (True, None)"
    by code_simp
  have e: "validate_symbol ''btcusdt'' =
      (False, Some ''Symbol must contain only uppercase letters and numbers'')"
    by code_simp
  have f: "validate_symbol ''BTC'' = (False, Some ''Symbol must end with USDT for USDT-M futures'')"
    by code_simp
  have g: "validate_symbol ''BTC-USDT'' =
      (False, Some ''Symbol must contain only uppercase letters and numbers'')"
    by code_simp
  from a b c d e f g show ?thesis by blast
qed

theorem validate_symbol_accepts_iff_witness:
  "validate_symbol ''ETHUSDT'' = (True, None) \<and> validate_symbol ''ETH_USDT'' \<noteq> (True, None)"
proof -
  have h: "list_all is_upper_alnum ''ETHUSDT'' \<and> endswith ''ETHUSDT'' ''USDT'' \<and> 6 \<le> length ''ETHUSDT''"
    by code_simp
  have n: "\<not> (list_all is_upper_alnum ''ETH_USDT'' \<and> endswith ''ETH_USDT'' ''USDT''
               \<and> 6 \<le> length ''ETH_USDT'')"
    by code_simp
  have p: "validate_symbol ''ETHUSDT'' = (True, None)"
    by (rule iffD2[OF conjunct1[OF conjunct2[OF validate_symbol_accepts_iff]] h])
  have q: "validate_symbol ''ETH_USDT'' \<noteq> (True, None)"
    using n conjunct1[OF conjunct2[OF validate_symbol_accepts_iff[of "''ETH_USDT''"]]] by blast
  from p q show ?thesis ..
qed

section \<open>Properties of the primitive order executor\<close>

lemma emit_calls [simp]: "calls (emit l m w) = calls w"
  by (simp add: emit_def)

lemma emit_logs [simp]: "logs (emit l m w) = logs w @ [(l, m)]"
  by (simp add: emit_def)

lemma log_order_calls [simp]: "calls (log_order a t w) = calls w"
  by (simp add: log_order_def)

lemma log_error_trace_calls [simp]: "calls (log_error_trace c w) = calls w"
  by (simp add: log_error_trace_def)

lemma log_api_call_calls [simp]: "calls (log_api_call e m s w) = calls w"
  by (simp add: log_api_call_def)

lemma send_order_result:
  "fst (send_order cl name ty api params w) =
     (case cl (calls w) (FuturesCreateOrder params) of Inr order \<Rightarrow> Some order | Inl e \<Rightarrow> None)"
  by (simp add: send_order_def request_def Let_def split: sum.splits)

lemma send_order_calls:
  "calls (snd (send_order cl name ty api params w)) = calls w @ [FuturesCreateOrder params]"
  by (simp add: send_order_def request_def Let_def split: sum.splits)

lemma place_limit_order_valid:
  assumes "fst (validate_symbol symbol)" "fst (validate_side side)" "fst (validate_price v price)"
    "fst (validate_quantity v quantity (Some price))" "fst (validate_time_in_force tif)"
  shows "place_limit_order v cl symbol side quantity price tif ro po w =
     send_order cl ''place_limit_order'' ''LIMIT'' True
       ([(''symbol'', PStr symbol), (''side'', PStr (upper side)), (''type'', PStr ''LIMIT''),
         (''quantity'', PFloat (format_quantity v quantity)), (''price'', PFloat (format_price v price)),
         (''timeInForce'', PStr (upper tif)), (''reduceOnly'', PBool ro)]
        @ (if po then [(''postOnly'', PBool True)] else [])) w"
  using assms by (simp add: place_limit_order_def Let_def split_def)

text \<open>
  Claim C6. \<open>place_limit_order\<close> checks symbol, side, price, quantity (with the
  notional value) and time in force, in this order, each on the values the caller
  passed. At the first check that fails it returns \<open>None\<close>, has sent nothing to the
  exchange, and has logged that check's error. When all five pass it sends exactly one
  request, which carries the price and the quantity rounded to the configured
  precision, and it returns the exchange's response as it is (\<open>None\<close> when the
  exchange raises).
\<close>

theorem place_limit_order_contract:
  "place_limit_order v cl symbol side quantity price tif ro po w = (res, w') \<Longrightarrow>
   (\<not> fst (validate_symbol symbol) \<longrightarrow>
      res = None \<and> calls w' = calls w \<and>
      logs w' = logs w @ [(ERROR, ''Invalid symbol: '' @ fmt_error (snd (validate_symbol symbol)))]) \<and>
   (fst (validate_symbol symbol) \<and> \<not> fst (validate_side side) \<longrightarrow>
      res = None \<and> calls w' = calls w \<and>
      logs w' = logs w @ [(ERROR, ''Invalid side: '' @ fmt_error (snd (validate_side side)))]) \<and>
   (fst (validate_symbol symbol) \<and> fst (validate_side side) \<and> \<not> fst (validate_price v price) \<longrightarrow>
      res = None \<and> calls w' = calls w \<and>
      logs w' = logs w @ [(ERROR, ''Invalid price: '' @ fmt_error (snd (validate_price v price)))]) \<and>
   (fst (validate_symbol symbol) \<and> fst (validate_side side) \<and> fst (validate_price v price) \<and>
    \<not> fst (validate_quantity v quantity (Some price)) \<longrightarrow>
      res = None \<and> calls w' = calls w \<and>
      logs w' = logs w @
        [(ERROR, ''Invalid quantity: '' @ fmt_error (snd (validate_quantity v quantity (Some price))))]) \<and>
   (fst (validate_symbol symbol) \<and> fst (validate_side side) \<and> fst (validate_price v price) \<and>
    fst (validate_quantity v quantity (Some price)) \<and> \<not> fst (validate_time_in_force tif) \<longrightarrow>
      res = None \<and> calls w' = calls w \<and>
      logs w' = logs w @
        [(ERROR, ''Invalid time in force: '' @ fmt_error (snd (validate_time_in_force tif)))]) \<and>
   (fst (validate_symbol symbol) \<and> fst (validate_side side) \<and> fst (validate_price v price) \<and>
    fst (validate_quantity v quantity (Some price)) \<and> fst (validate_time_in_force tif) \<longrightarrow>
      (let params =
             [(''symbol'', PStr symbol), (''side'', PStr (upper side)), (''type'', PStr ''LIMIT''),
              (''quantity'', PFloat (format_quantity v quantity)),
              (''price'', PFloat (format_price v price)),
              (''timeInForce'', PStr (upper tif)), (''reduceOnly'', PBool ro)]
             @ (if po then [(''postOnly'', PBool True)] else [])
       in calls w' = calls w @ [FuturesCreateOrder params] \<and>
          res = (case cl (calls w) (FuturesCreateOrder params) of
                   Inr order \<Rightarrow> Some order
                 | Inl e \<Rightarrow> None)))"
proof -
  assume eq: "place_limit_order v cl symbol side quantity price tif ro po w = (res, w')"
  have 1: "\<not> fst (validate_symbol symbol) \<longrightarrow>
      res = None \<and> calls w' = calls w \<and>
      logs w' = logs w @ [(ERROR, ''Invalid symbol: '' @ fmt_error (snd (validate_symbol symbol)))]"
    using eq by (auto simp: place_limit_order_def Let_def split_def)
  have 2: "fst (validate_symbol symbol) \<and> \<not> fst (validate_side side) \<longrightarrow>
      res = None \<and> calls w' = calls w \<and>
      logs w' = logs w @ [(ERROR, ''Invalid side: '' @ fmt_error (snd (validate_side side)))]"
    using eq by (auto simp: place_limit_order_def Let_def split_def)
  have 3: "fst (validate_symbol symbol) \<and> fst (validate_side side) \<and> \<not> fst (validate_price v price) \<longrightarrow>
      res = None \<and> calls w' = calls w \<and>
      logs w' = logs w @ [(ERROR, ''Invalid price: '' @ fmt_error (snd (validate_price v price)))]"
    using eq by (auto simp: place_limit_order_def Let_def split_def)
  have 4: "fst (validate_symbol symbol) \<and> fst (validate_side side) \<and> fst (validate_price v price) \<and>
    \<not> fst (validate_quantity v quantity (Some price)) \<longrightarrow>
      res = None \<and> calls w' = calls w \<and>
      logs w' = logs w @
        [(ERROR, ''Invalid quantity: '' @ fmt_error (snd (validate_quantity v quantity (Some price))))]"
    using eq by (auto simp: place_limit_order_def Let_def split_def)
  have 5: "fst (validate_symbol symbol) \<and> fst (validate_side side) \<and> fst (validate_price v price) \<and>
    fst (validate_quantity v quantity (Some price)) \<and> \<not> fst (validate_time_in_force tif) \<longrightarrow>
      res = None \<and> calls w' = calls w \<and>
      logs w' = logs w @
        [(ERROR, ''Invalid time in force: '' @ fmt_error (snd (validate_time_in_force tif)))]"
    using eq by (auto simp: place_limit_order_def Let_def split_def)
  have 6: "fst (validate_symbol symbol) \<and> fst (validate_side side) \<and> fst (validate_price v price) \<and>
    fst (validate_quantity v quantity (Some price)) \<and> fst (validate_time_in_force tif) \<longrightarrow>
      (let params =
             [(''symbol'', PStr symbol), (''side'', PStr (upper side)), (''type'', PStr ''LIMIT''),
              (''quantity'', PFloat (format_quantity v quantity)),
              (''price'', PFloat (format_price v price)),
              (''timeInForce'', PStr (upper tif)), (''reduceOnly'', PBool ro)]
             @ (if po then [(''postOnly'', PBool True)] else [])
       in calls w' = calls w @ [FuturesCreateOrder params] \<and>
          res = (case cl (calls w) (FuturesCreateOrder params) of
                   Inr order \<Rightarrow> Some order
                 | Inl e \<Rightarrow> None))"
  proof (intro impI, elim conjE)
    assume a: "fst (validate_symbol symbol)" "fst (validate_side side)" "fst (validate_price v price)"
      "fst (validate_quantity v quantity (Some price))" "fst (validate_time_in_force tif)"
    show "(let params =
             [(''symbol'', PStr symbol), (''side'', PStr (upper side)), (''type'', PStr ''LIMIT''),
              (''quantity'', PFloat (format_quantity v quantity)),
              (''price'', PFloat (format_price v price)),
              (''timeInForce'', PStr (upper tif)), (''reduceOnly'', PBool ro)]
             @ (if po then [(''postOnly'', PBool True)] else [])
       in calls w' = calls w @ [FuturesCreateOrder params] \<and>
          res = (case cl (calls w) (FuturesCreateOrder params) of
                   Inr order \<Rightarrow> Some order
                 | Inl e \<Rightarrow> None))"
      unfolding Let_def
      using eq send_order_result[of cl "''place_limit_order''" "''LIMIT''" True _ w]
        send_order_calls[of cl "''place_limit_order''" "''LIMIT''" True _ w]
      unfolding place_limit_order_valid[OF a]
      by (metis fst_conv snd_conv)
  qed
  from 1 2 3 4 5 6 show ?thesis by blast
qed

text \<open>
  The contract at two concrete calls against the default settings. The first passes
  every check and reaches the exchange. In the second the price 0.0051 is below the
  minimum 0.01, although its rounded value 0.01 would have been accepted: the order
  is refused and nothing is sent.
\<close>

theorem place_limit_order_contract_witness:
  "place_limit_order default_validator (filling_exchange 50000) ''BTCUSDT'' ''buy'' (12 / 10000)
       (5000004 / 100) ''gtc'' False True empty_world
     = (Some [(''orderId'', PInt 0), (''status'', PStr ''FILLED''),
              (''executedQty'', PFloat (1 / 1000)), (''avgPrice'', PFloat 50000)],
        snd (place_limit_order default_validator (filling_exchange 50000) ''BTCUSDT'' ''buy'' (12 / 10000)
               (5000004 / 100) ''gtc'' False True empty_world)) \<and>
   calls (snd (place_limit_order default_validator (filling_exchange 50000) ''BTCUSDT'' ''buy''
                 (12 / 10000) (5000004 / 100) ''gtc'' False True empty_world))
     = [FuturesCreateOrder
          [(''symbol'', PStr ''BTCUSDT''), (''side'', PStr ''BUY''), (''type'', PStr ''LIMIT''),
           (''quantity'', PFloat (1 / 1000)), (''price'', PFloat (5000004 / 100)),
           (''timeInForce'', PStr ''GTC''), (''reduceOnly'', PBool False), (''postOnly'', PBool True)]] \<and>
   fst (validate_price default_validator (format_price default_validator (51 / 10000))) \<and>
   fst (place_limit_order default_validator (filling_exchange 50000) ''BTCUSDT'' ''BUY'' 1000
          (51 / 10000) ''GTC'' False False empty_world) = None \<and>
   calls (snd (place_limit_order default_validator (filling_exchange 50000) ''BTCUSDT'' ''BUY'' 1000
                 (51 / 10000) ''GTC'' False False empty_world)) = []"
proof -
  let ?a = "place_limit_order default_validator (filling_exchange 50000) ''BTCUSDT'' ''buy'' (12 / 10000)
       (5000004 / 100) ''gtc'' False True empty_world"
  let ?b = "place_limit_order default_validator (filling_exchange 50000) ''BTCUSDT'' ''BUY'' 1000
          (51 / 10000) ''GTC'' False False empty_world"
  have ha: "fst (validate_symbol ''BTCUSDT'') \<and> fst (validate_side ''buy'') \<and>
      fst (validate_price default_validator (5000004 / 100)) \<and>
      fst (validate_quantity default_validator (12 / 10000) (Some (5000004 / 100))) \<and>
      fst (validate_time_in_force ''gtc'')"
    by code_simp
  have hb: "fst (validate_symbol ''BTCUSDT'') \<and> fst (validate_side ''BUY'') \<and>
      \<not> fst (validate_price default_validator (51 / 10000))"
    by code_simp
  have ea: "?a = (fst ?a, snd ?a)" and eb: "?b = (fst ?b, snd ?b)"
    by simp_all
  note ta = place_limit_order_contract[OF ea, THEN conjunct2, THEN conjunct2, THEN conjunct2,
      THEN conjunct2, THEN conjunct2, THEN mp, OF ha]
  note tb = place_limit_order_contract[OF eb, THEN conjunct2, THEN conjunct2, THEN conjunct1,
      THEN mp, OF hb]
  have fa: "format_quantity default_validator (12 / 10000) = 1 / 1000"
    "format_price default_validator (5000004 / 100) = 5000004 / 100"
    "upper ''buy'' = ''BUY''" "upper ''gtc'' = ''GTC''"
    by code_simp+
  have r: "fst (validate_price default_validator (format_price default_validator (51 / 10000)))"
    by code_simp
  have 1: "fst ?a = Some [(''orderId'', PInt 0), (''status'', PStr ''FILLED''),
              (''executedQty'', PFloat (1 / 1000)), (''avgPrice'', PFloat 50000)]"
    using ta unfolding Let_def fa
    by (simp add: empty_world_def filling_exchange_def dict_get_def)
  have 2: "calls (snd ?a) = [FuturesCreateOrder
          [(''symbol'', PStr ''BTCUSDT''), (''side'', PStr ''BUY''), (''type'', PStr ''LIMIT''),
           (''quantity'', PFloat (1 / 1000)), (''price'', PFloat (5000004 / 100)),
           (''timeInForce'', PStr ''GTC''), (''reduceOnly'', PBool False), (''postOnly'', PBool True)]]"
    using ta unfolding Let_def fa by (simp add: empty_world_def)
  have 3: "fst ?b = None" "calls (snd ?b) = []"
    using tb by (simp_all add: empty_world_def)
  from 1 2 3 r show ?thesis by (simp add: prod_eq_iff)
qed

section \<open>Properties of the OCO coordinator\<close>

lemma cancel_order_calls:
  "calls (snd (cancel_order cl symbol order_id w)) = calls w @ [FuturesCancelOrder symbol order_id]"
  by (simp add: cancel_order_def request_def Let_def split: sum.splits)

lemma place_take_profit_order_valid:
  assumes "fst (validate_symbol symbol)" "fst (validate_side side)" "fst (validate_price v stop_price)"
    "fst (validate_quantity v quantity None)"
  shows "place_take_profit_order v cl symbol side quantity stop_price None ro w =
     send_order cl ''place_take_profit_order'' ''TAKE_PROFIT_MARKET'' False
       [(''symbol'', PStr symbol), (''side'', PStr (upper side)), (''type'', PStr ''TAKE_PROFIT_MARKET''),
        (''quantity'', PFloat (format_quantity v quantity)),
        (''stopPrice'', PFloat (format_price v stop_price)), (''reduceOnly'', PBool ro)] w"
  using assms by (simp add: place_take_profit_order_def Let_def split_def)

lemma place_stop_market_order_valid:
  assumes "fst (validate_symbol symbol)" "fst (validate_side side)" "fst (validate_price v stop_price)"
    "fst (validate_quantity v quantity None)"
  shows "place_stop_market_order v cl symbol side quantity stop_price ro w =
     send_order cl ''place_stop_market_order'' ''STOP_MARKET'' False
       [(''symbol'', PStr symbol), (''side'', PStr (upper side)), (''type'', PStr ''STOP_MARKET''),
        (''quantity'', PFloat (format_quantity v quantity)),
        (''stopPrice'', PFloat (format_price v stop_price)), (''reduceOnly'', PBool ro)] w"
  using assms by (simp add: place_stop_market_order_def Let_def split_def)

lemma truthy_dict_None: "truthy_dict x = None \<longleftrightarrow> x = None \<or> x = Some []"
  by (cases x) auto

lemma truthy_dict_Some: "truthy_dict x = Some d \<longleftrightarrow> x = Some d \<and> d \<noteq> []"
  by (cases x) auto

lemma dict_index_Inr: "dict_index d k = Inr x \<longleftrightarrow> map_of d k = Some x"
  by (simp add: dict_index_def split: option.splits)




lemma place_oco_order_valid:
  assumes "fst (validate_symbol symbol)" "fst (validate_side side)" "fst (validate_quantity v quantity None)"
    "fst (validate_price v take_profit_price)" "fst (validate_price v stop_loss_price)"
    "if upper side = ''SELL'' then stop_loss_price < take_profit_price
     else take_profit_price < stop_loss_price"
  shows "place_oco_order v cl symbol side quantity take_profit_price stop_loss_price w =
    place_oco_legs v cl symbol side quantity take_profit_price stop_loss_price w"
  using assms by (auto simp: place_oco_order_def Let_def split_def split: if_splits)


lemma place_oco_legs_result:
  assumes "fst (validate_symbol symbol)" "fst (validate_side side)" "fst (validate_quantity v quantity None)"
    "fst (validate_price v take_profit_price)" "fst (validate_price v stop_loss_price)"
  shows "fst (place_oco_legs v cl symbol side quantity take_profit_price stop_loss_price w) =
    (let tp_request = FuturesCreateOrder
           [(''symbol'', PStr symbol), (''side'', PStr (upper side)), (''type'', PStr ''TAKE_PROFIT_MARKET''),
            (''quantity'', PFloat (format_quantity v quantity)),
            (''stopPrice'', PFloat (format_price v take_profit_price)), (''reduceOnly'', PBool True)];
         sl_request = FuturesCreateOrder
           [(''symbol'', PStr symbol), (''side'', PStr (upper side)), (''type'', PStr ''STOP_MARKET''),
            (''quantity'', PFloat (format_quantity v quantity)),
            (''stopPrice'', PFloat (format_price v stop_loss_price)), (''reduceOnly'', PBool True)]
     in case cl (calls w) tp_request of
          Inl e \<Rightarrow> None
        | Inr tp \<Rightarrow>
            if tp = [] then None
            else (case cl (calls w @ [tp_request]) sl_request of
                    Inl e \<Rightarrow> None
                  | Inr sl \<Rightarrow>
                      if sl = [] \<or> map_of tp ''orderId'' = None \<or> map_of sl ''orderId'' = None then None
                      else Some (tp, sl)))"
  unfolding place_oco_legs_def place_take_profit_order_valid[OF assms(1,2,4,3)] 
    place_stop_market_order_valid[OF assms(1,2,5,3)] Let_def split_def 
  by (simp add: send_order_result send_order_calls truthy_dict_None dict_index_def
      split: sum.splits option.splits)

lemma place_oco_legs_calls:
  assumes "fst (validate_symbol symbol)" "fst (validate_side side)" "fst (validate_quantity v quantity None)"
    "fst (validate_price v take_profit_price)" "fst (validate_price v stop_loss_price)"
  shows "calls (snd (place_oco_legs v cl symbol side quantity take_profit_price stop_loss_price w)) =
    (let tp_request = FuturesCreateOrder
           [(''symbol'', PStr symbol), (''side'', PStr (upper side)), (''type'', PStr ''TAKE_PROFIT_MARKET''),
            (''quantity'', PFloat (format_quantity v quantity)),
            (''stopPrice'', PFloat (format_price v take_profit_price)), (''reduceOnly'', PBool True)];
         sl_request = FuturesCreateOrder
           [(''symbol'', PStr symbol), (''side'', PStr (upper side)), (''type'', PStr ''STOP_MARKET''),
            (''quantity'', PFloat (format_quantity v quantity)),
            (''stopPrice'', PFloat (format_price v stop_loss_price)), (''reduceOnly'', PBool True)]
     in case cl (calls w) tp_request of
          Inl e \<Rightarrow> calls w @ [tp_request]
        | Inr tp \<Rightarrow>
            if tp = [] then calls w @ [tp_request]
            else (case cl (calls w @ [tp_request]) sl_request of
                    Inl e \<Rightarrow>
                      (case map_of tp ''orderId'' of
                         None \<Rightarrow> calls w @ [tp_request, sl_request]
                       | Some order_id \<Rightarrow> calls w @ [tp_request, sl_request, FuturesCancelOrder symbol order_id])
                  | Inr sl \<Rightarrow>
                      if sl = [] then
                        (case map_of tp ''orderId'' of
                           None \<Rightarrow> calls w @ [tp_request, sl_request]
                         | Some order_id \<Rightarrow> calls w @ [tp_request, sl_request, FuturesCancelOrder symbol order_id])
                      else calls w @ [tp_request, sl_request]))"
  unfolding place_oco_legs_def place_take_profit_order_valid[OF assms(1,2,4,3)] 
    place_stop_market_order_valid[OF assms(1,2,5,3)] Let_def split_def 
  by (simp add: send_order_result send_order_calls truthy_dict_None dict_index_def cancel_order_calls
      split: sum.splits option.splits)

text \<open>
  Claim C1. Let the inputs pass the checks and the price ordering. The take-profit
  request is sent first. If the exchange raises or answers with an empty dictionary,
  the call returns \<open>None\<close> and the take-profit request is the only request made. If
  the take-profit order comes back (with its \<open>orderId\<close>) and the stop-loss request
  yields no order, the call returns \<open>None\<close> after a third request, which cancels the
  take-profit order by its \<open>orderId\<close>. If both responses come back with their
  \<open>orderId\<close>, the call returns the pair and has made exactly the two requests. A
  returned pair is always the two responses of the exchange.
\<close>

theorem place_oco_order_legs:
  assumes valid: "fst (validate_symbol symbol)" "fst (validate_side side)"
      "fst (validate_quantity v quantity None)"
      "fst (validate_price v take_profit_price)" "fst (validate_price v stop_loss_price)"
      "if upper side = ''SELL'' then stop_loss_price < take_profit_price
       else take_profit_price < stop_loss_price"
    and eq: "place_oco_order v cl symbol side quantity take_profit_price stop_loss_price w = (res, w')"
  shows
    "(let tp_request = FuturesCreateOrder
           [(''symbol'', PStr symbol), (''side'', PStr (upper side)), (''type'', PStr ''TAKE_PROFIT_MARKET''),
            (''quantity'', PFloat (format_quantity v quantity)),
            (''stopPrice'', PFloat (format_price v take_profit_price)), (''reduceOnly'', PBool True)];
         sl_request = FuturesCreateOrder
           [(''symbol'', PStr symbol), (''side'', PStr (upper side)), (''type'', PStr ''STOP_MARKET''),
            (''quantity'', PFloat (format_quantity v quantity)),
            (''stopPrice'', PFloat (format_price v stop_loss_price)), (''reduceOnly'', PBool True)];
         tp_reply = cl (calls w) tp_request;
         sl_reply = cl (calls w @ [tp_request]) sl_request
     in ((\<forall>tp. tp_reply = Inr tp \<longrightarrow> tp = []) \<longrightarrow>
           res = None \<and> calls w' = calls w @ [tp_request]) \<and>
        (\<forall>tp order_id. tp_reply = Inr tp \<and> map_of tp ''orderId'' = Some order_id \<and>
             (\<forall>sl. sl_reply = Inr sl \<longrightarrow> sl = []) \<longrightarrow>
           res = None \<and>
           calls w' = calls w @ [tp_request, sl_request, FuturesCancelOrder symbol order_id]) \<and>
        (\<forall>tp sl. tp_reply = Inr tp \<and> sl_reply = Inr sl \<and>
             map_of tp ''orderId'' \<noteq> None \<and> map_of sl ''orderId'' \<noteq> None \<longrightarrow>
           res = Some (tp, sl) \<and> calls w' = calls w @ [tp_request, sl_request]) \<and>
        (\<forall>tp sl. res = Some (tp, sl) \<longrightarrow>
           tp_reply = Inr tp \<and> sl_reply = Inr sl \<and> tp \<noteq> [] \<and> sl \<noteq> [] \<and>
           calls w' = calls w @ [tp_request, sl_request]))"
proof -
  have legs: "place_oco_legs v cl symbol side quantity take_profit_price stop_loss_price w = (res, w')"
    using eq place_oco_order_valid[OF valid] by simp
  have r: "fst (place_oco_legs v cl symbol side quantity take_profit_price stop_loss_price w) = res"
    and c: "calls (snd (place_oco_legs v cl symbol side quantity take_profit_price stop_loss_price w)) = calls w'"
    using legs by simp_all
  show ?thesis
    using r c
    unfolding place_oco_legs_result[OF valid(1-5)] place_oco_legs_calls[OF valid(1-5)] Let_def
    by (auto split: sum.splits if_splits option.splits)
qed

theorem place_oco_order_legs_witness:
  "fst (place_oco_order default_validator (filling_exchange 50000) ''BTCUSDT'' ''SELL'' (1 / 1000)
          52000 48000 empty_world)
     = Some ([(''orderId'', PInt 0), (''status'', PStr ''FILLED''),
              (''executedQty'', PFloat (1 / 1000)), (''avgPrice'', PFloat 50000)],
             [(''orderId'', PInt 1), (''status'', PStr ''FILLED''),
              (''executedQty'', PFloat (1 / 1000)), (''avgPrice'', PFloat 50000)]) \<and>
   fst (place_oco_order default_validator (failing_on [0] (filling_exchange 50000)) ''BTCUSDT'' ''SELL''
          (1 / 1000) 52000 48000 empty_world) = None \<and>
   calls (snd (place_oco_order default_validator (failing_on [0] (filling_exchange 50000)) ''BTCUSDT''
                 ''SELL'' (1 / 1000) 52000 48000 empty_world))
     = [FuturesCreateOrder
          [(''symbol'', PStr ''BTCUSDT''), (''side'', PStr ''SELL''), (''type'', PStr ''TAKE_PROFIT_MARKET''),
           (''quantity'', PFloat (1 / 1000)), (''stopPrice'', PFloat 52000), (''reduceOnly'', PBool True)]] \<and>
   fst (place_oco_order default_validator (failing_on [1] (filling_exchange 50000)) ''BTCUSDT'' ''SELL''
          (1 / 1000) 52000 48000 empty_world) = None \<and>
   calls (snd (place_oco_order default_validator (failing_on [1] (filling_exchange 50000)) ''BTCUSDT''
                 ''SELL'' (1 / 1000) 52000 48000 empty_world))
     = [FuturesCreateOrder
          [(''symbol'', PStr ''BTCUSDT''), (''side'', PStr ''SELL''), (''type'', PStr ''TAKE_PROFIT_MARKET''),
           (''quantity'', PFloat (1 / 1000)), (''stopPrice'', PFloat 52000), (''reduceOnly'', PBool True)],
        FuturesCreateOrder
          [(''symbol'', PStr ''BTCUSDT''), (''side'', PStr ''SELL''), (''type'', PStr ''STOP_MARKET''),
           (''quantity'', PFloat (1 / 1000)), (''stopPrice'', PFloat 48000), (''reduceOnly'', PBool True)],
        FuturesCancelOrder ''BTCUSDT'' (PInt 0)]"
proof -
  let ?run = "\<lambda>cl. place_oco_order default_validator cl ''BTCUSDT'' ''SELL'' (1 / 1000) 52000 48000
                     empty_world"
  let ?tp = "FuturesCreateOrder
          [(''symbol'', PStr ''BTCUSDT''), (''side'', PStr ''SELL''), (''type'', PStr ''TAKE_PROFIT_MARKET''),
           (''quantity'', PFloat (1 / 1000)), (''stopPrice'', PFloat 52000), (''reduceOnly'', PBool True)]"
  let ?sl = "FuturesCreateOrder
          [(''symbol'', PStr ''BTCUSDT''), (''side'', PStr ''SELL''), (''type'', PStr ''STOP_MARKET''),
           (''quantity'', PFloat (1 / 1000)), (''stopPrice'', PFloat 48000), (''reduceOnly'', PBool True)]"
  let ?r0 = "[(''orderId'', PInt 0), (''status'', PStr ''FILLED''),
              (''executedQty'', PFloat (1 / 1000)), (''avgPrice'', PFloat 50000)]"
  let ?r1 = "[(''orderId'', PInt 1), (''status'', PStr ''FILLED''),
              (''executedQty'', PFloat (1 / 1000)), (''avgPrice'', PFloat 50000)]"
  have v: "fst (validate_symbol ''BTCUSDT'')" "fst (validate_side ''SELL'')"
    "fst (validate_quantity default_validator (1 / 1000) None)"
    "fst (validate_price default_validator 52000)" "fst (validate_price default_validator 48000)"
    "if upper ''SELL'' = ''SELL'' then (48000::rat) < 52000 else (52000::rat) < 48000"
    by code_simp+
  have f: "format_quantity default_validator (1 / 1000) = 1 / 1000"
    "format_price default_validator 52000 = 52000" "format_price default_validator 48000 = 48000"
    "upper ''SELL'' = ''SELL''"
    by code_simp+
  have e: "?run cl = (fst (?run cl), snd (?run cl))" for cl
    by simp
  have c: "calls empty_world = []"
    by (simp add: empty_world_def)
  note ta = place_oco_order_legs[OF v e[of "filling_exchange 50000"], unfolded Let_def f c append_Nil]
  note tb = place_oco_order_legs[OF v e[of "failing_on [0] (filling_exchange 50000)"],
      unfolded Let_def f c append_Nil]
  note tc = place_oco_order_legs[OF v e[of "failing_on [1] (filling_exchange 50000)"],
      unfolded Let_def f c append_Nil]
  have ok: "filling_exchange 50000 [] ?tp = Inr ?r0 \<and> filling_exchange 50000 [?tp] ?sl = Inr ?r1 \<and>
      map_of ?r0 ''orderId'' \<noteq> None \<and> map_of ?r1 ''orderId'' \<noteq> None"
    by (simp add: filling_exchange_def dict_get_def)
  have tp_fails: "\<forall>tp. failing_on [0] (filling_exchange 50000) [] ?tp = Inr tp \<longrightarrow> tp = []"
    by (simp add: failing_on_def)
  have sl_fails: "failing_on [1] (filling_exchange 50000) [] ?tp = Inr ?r0 \<and>
      map_of ?r0 ''orderId'' = Some (PInt 0) \<and>
      (\<forall>sl. failing_on [1] (filling_exchange 50000) [?tp] ?sl = Inr sl \<longrightarrow> sl = [])"
    by (simp add: failing_on_def filling_exchange_def dict_get_def)
  note 1 = ta[THEN conjunct2, THEN conjunct2, THEN conjunct1, THEN spec, THEN spec, THEN mp, OF ok]
  note 2 = tb[THEN conjunct1, THEN mp, OF tp_fails]
  note 3 = tc[THEN conjunct2, THEN conjunct1, THEN spec, THEN spec, THEN mp, OF sl_fails]
  from 1 2 3 show ?thesis by blast
qed

section \<open>Properties of rounding\<close>





lemma round_half_even_of_int [simp]: "round_half_even (of_int k) = k"
  unfolding round_half_even_def Let_def by simp






section \<open>Properties of the grid builder\<close>





lemma fetch_current_price_result:
  "fst (fetch_current_price fs cl symbol w) =
     (case cl (calls w) (FuturesSymbolTicker symbol) of
        Inl e \<Rightarrow> Inl e
      | Inr ticker \<Rightarrow>
          (case map_of ticker ''price'' of None \<Rightarrow> Inl KeyError | Some p \<Rightarrow> py_float fs p))"
  by (simp add: fetch_current_price_def request_def dict_index_def split: sum.splits option.splits)

lemma fetch_current_price_calls:
  "calls (snd (fetch_current_price fs cl symbol w)) = calls w @ [FuturesSymbolTicker symbol]"
  by (simp add: fetch_current_price_def request_def split: sum.splits)

lemma fetch_current_price_logs:
  "logs (snd (fetch_current_price fs cl symbol w)) = logs w"
  by (simp add: fetch_current_price_def request_def split: sum.splits)

lemma place_limit_order_same_calls:
  assumes "calls w1 = calls w2"
  shows "fst (place_limit_order v cl symbol side quantity price tif ro po w1) =
         fst (place_limit_order v cl symbol side quantity price tif ro po w2) \<and>
         calls (snd (place_limit_order v cl symbol side quantity price tif ro po w1)) =
         calls (snd (place_limit_order v cl symbol side quantity price tif ro po w2))"
  using assms
  by (simp add: place_limit_order_def Let_def split_def send_order_result send_order_calls)


lemma neutral_level_same_calls:
  fixes s1 s2 :: "pydict list \<times> pydict list \<times> world"
  assumes "fst s1 = fst s2 \<and> fst (snd s1) = fst (snd s2) \<and> calls (snd (snd s1)) = calls (snd (snd s2))"
  shows "fst (neutral_level v cl symbol q cur p s1) = fst (neutral_level v cl symbol q cur p s2) \<and>
     fst (snd (neutral_level v cl symbol q cur p s1)) = fst (snd (neutral_level v cl symbol q cur p s2)) \<and>
     calls (snd (snd (neutral_level v cl symbol q cur p s1))) =
     calls (snd (snd (neutral_level v cl symbol q cur p s2)))"
proof -
  obtain b1 x1 w1 where s1: "s1 = (b1, x1, w1)" by (cases s1)
  obtain b2 x2 w2 where s2: "s2 = (b2, x2, w2)" by (cases s2)
  have c: "calls w1 = calls w2" and b: "b1 = b2" and x: "x1 = x2"
    using assms s1 s2 by simp_all
  show ?thesis
    using c place_limit_order_same_calls[OF c, of v cl symbol "''BUY''" q p "''GTC''" False True]
      place_limit_order_same_calls[OF c, of v cl symbol "''SELL''" q p "''GTC''" False True]
    unfolding s1 s2 b x
    by (auto simp add: neutral_level_def Let_def split_def split: option.splits)
qed

lemma long_level_same_calls:
  fixes s1 s2 :: "pydict list \<times> pydict list \<times> world"
  assumes "fst s1 = fst s2 \<and> fst (snd s1) = fst (snd s2) \<and> calls (snd (snd s1)) = calls (snd (snd s2))"
  shows "fst (long_level v cl symbol q cur p s1) = fst (long_level v cl symbol q cur p s2) \<and>
     fst (snd (long_level v cl symbol q cur p s1)) = fst (snd (long_level v cl symbol q cur p s2)) \<and>
     calls (snd (snd (long_level v cl symbol q cur p s1))) =
     calls (snd (snd (long_level v cl symbol q cur p s2)))"
proof -
  obtain b1 x1 w1 where s1: "s1 = (b1, x1, w1)" by (cases s1)
  obtain b2 x2 w2 where s2: "s2 = (b2, x2, w2)" by (cases s2)
  have c: "calls w1 = calls w2" and b: "b1 = b2" and x: "x1 = x2"
    using assms s1 s2 by simp_all
  show ?thesis
    using c place_limit_order_same_calls[OF c, of v cl symbol "''BUY''" q p "''GTC''" False True]
    unfolding s1 s2 b x
    by (auto simp add: long_level_def Let_def split_def split: option.splits)
qed

lemma short_level_same_calls:
  fixes s1 s2 :: "pydict list \<times> pydict list \<times> world"
  assumes "fst s1 = fst s2 \<and> fst (snd s1) = fst (snd s2) \<and> calls (snd (snd s1)) = calls (snd (snd s2))"
  shows "fst (short_level v cl symbol q cur p s1) = fst (short_level v cl symbol q cur p s2) \<and>
     fst (snd (short_level v cl symbol q cur p s1)) = fst (snd (short_level v cl symbol q cur p s2)) \<and>
     calls (snd (snd (short_level v cl symbol q cur p s1))) =
     calls (snd (snd (short_level v cl symbol q cur p s2)))"
proof -
  obtain b1 x1 w1 where s1: "s1 = (b1, x1, w1)" by (cases s1)
  obtain b2 x2 w2 where s2: "s2 = (b2, x2, w2)" by (cases s2)
  have c: "calls w1 = calls w2" and b: "b1 = b2" and x: "x1 = x2"
    using assms s1 s2 by simp_all
  show ?thesis
    using c place_limit_order_same_calls[OF c, of v cl symbol "''SELL''" q p "''GTC''" False True]
    unfolding s1 s2 b x
    by (auto simp add: short_level_def Let_def split_def split: option.splits)
qed

lemma fold_same_calls:
  fixes s1 s2 :: "pydict list \<times> pydict list \<times> world"
  assumes step: "\<And>p s1 s2.
      fst s1 = fst s2 \<and> fst (snd s1) = fst (snd s2) \<and> calls (snd (snd s1)) = calls (snd (snd s2)) \<Longrightarrow>
      fst (f p s1) = fst (f p s2) \<and> fst (snd (f p s1)) = fst (snd (f p s2)) \<and>
      calls (snd (snd (f p s1))) = calls (snd (snd (f p s2)))"
    and "fst s1 = fst s2 \<and> fst (snd s1) = fst (snd s2) \<and> calls (snd (snd s1)) = calls (snd (snd s2))"
  shows "fst (fold f ps s1) = fst (fold f ps s2) \<and> fst (snd (fold f ps s1)) = fst (snd (fold f ps s2)) \<and>
      calls (snd (snd (fold f ps s1))) = calls (snd (snd (fold f ps s2)))"
  using assms(2)
proof (induction ps arbitrary: s1 s2)
  case Nil
  then show ?case by simp
next
  case (Cons p ps)
  show ?case
    using Cons.IH[OF step[OF Cons.prems]] by simp
qed

lemma place_grid_levels_same_calls:
  assumes "calls w1 = calls w2"
  shows "fst (place_grid_levels v cl symbol q cur mode ps w1) =
         fst (place_grid_levels v cl symbol q cur mode ps w2) \<and>
     fst (snd (place_grid_levels v cl symbol q cur mode ps w1)) =
     fst (snd (place_grid_levels v cl symbol q cur mode ps w2)) \<and>
     calls (snd (snd (place_grid_levels v cl symbol q cur mode ps w1))) =
     calls (snd (snd (place_grid_levels v cl symbol q cur mode ps w2)))"
proof -
  have init: "fst ([]::pydict list, []::pydict list, w1) = fst ([]::pydict list, []::pydict list, w2) \<and>
     fst (snd ([]::pydict list, []::pydict list, w1)) = fst (snd ([]::pydict list, []::pydict list, w2)) \<and>
     calls (snd (snd ([]::pydict list, []::pydict list, w1))) =
     calls (snd (snd ([]::pydict list, []::pydict list, w2)))"
    using assms by simp
  note n = fold_same_calls[of "neutral_level v cl symbol q cur", OF neutral_level_same_calls init]
  note l = fold_same_calls[of "long_level v cl symbol q cur", OF long_level_same_calls init]
  note s = fold_same_calls[of "short_level v cl symbol q cur", OF short_level_same_calls init]
  show ?thesis
    unfolding place_grid_levels_def using n[of ps] l[of ps] s[of ps] assms by simp
qed

lemma fetch_current_price_same_calls:
  "calls w1 = calls w2 \<Longrightarrow> fst (fetch_current_price fs cl symbol w1) = fst (fetch_current_price fs cl symbol w2)"
  by (simp add: fetch_current_price_result)

lemma create_grid_orders_fetched:
  assumes l: "int_or grid_levels (default_grid_levels gc) = levels"
    and v1: "fst (validate_grid_parameters v lower_price upper_price levels)"
    and v2: "fst (validate_symbol symbol)"
    and sp: "\<not> (upper_price - lower_price) / of_int (levels - 1) / lower_price * 100 < min_spacing gc"
    and t: "fst (fetch_current_price fs cl symbol w) = Inr current_price"
  shows "create_grid_orders fs v gc cl symbol lower_price upper_price total_quantity grid_levels mode w =
    (let w0 = emit INFO ''Creating grid for {symbol}: Range: {lower_price}-{upper_price}, Levels: {grid_levels}, Spacing: {grid_spacing:.2f} ({spacing_percent:.2f}%), Qty/Level: {qty_per_level}''
                (if max_spacing gc < (upper_price - lower_price) / of_int (levels - 1) / lower_price * 100
                 then emit WARNING ''Grid spacing ({spacing_percent:.2f}%) above recommended maximum ({self.max_spacing}%)'' w
                 else w);
         w1 = emit INFO ''Current price: {current_price}'' (snd (fetch_current_price fs cl symbol w0));
         q = format_quantity v (total_quantity / of_int levels);
         ps = generate_grid_prices v lower_price ((upper_price - lower_price) / of_int (levels - 1)) levels;
         loop = place_grid_levels v cl symbol q current_price mode ps w1
     in (Some \<lparr>r_symbol = symbol, r_mode = mode, r_grid_levels = levels,
               r_lower_price = lower_price, r_upper_price = upper_price,
               r_current_price = current_price, r_grid_prices = ps,
               r_buy_orders = fst loop, r_sell_orders = fst (snd loop),
               r_total_orders = int (length (fst loop)) + int (length (fst (snd loop)))\<rparr>,
         emit INFO ''Grid created: {len(buy_orders)} buy orders, {len(sell_orders)} sell orders''
           (snd (snd loop))))"
proof -
  have f: "fst (fetch_current_price fs cl symbol w0) = Inr current_price" if "calls w0 = calls w" for w0
    using fetch_current_price_same_calls[OF that] t by simp
  show ?thesis
    unfolding create_grid_orders_def l Let_def split_def
    using v1 v2 sp by (simp add: f)
qed

lemma create_grid_orders_not_fetched:
  assumes l: "int_or grid_levels (default_grid_levels gc) = levels"
    and v1: "fst (validate_grid_parameters v lower_price upper_price levels)"
    and v2: "fst (validate_symbol symbol)"
    and sp: "\<not> (upper_price - lower_price) / of_int (levels - 1) / lower_price * 100 < min_spacing gc"
    and t: "fst (fetch_current_price fs cl symbol w) = Inl e"
  shows "fst (create_grid_orders fs v gc cl symbol lower_price upper_price total_quantity grid_levels mode w)
           = None \<and>
         calls (snd (create_grid_orders fs v gc cl symbol lower_price upper_price total_quantity grid_levels
                  mode w)) = calls w @ [FuturesSymbolTicker symbol]"
proof -
  have f: "fst (fetch_current_price fs cl symbol w0) = Inl e" if "calls w0 = calls w" for w0
    using fetch_current_price_same_calls[OF that] t by simp
  show ?thesis
    unfolding create_grid_orders_def l Let_def split_def
    using v1 v2 sp by (simp add: f fetch_current_price_calls)
qed

lemma emit_logs_subset: "set (logs w) \<subseteq> set (logs (emit l m w))"
  by (auto simp: emit_def)

lemma send_order_logs_subset:
  "set (logs w) \<subseteq> set (logs (snd (send_order cl name ty api params w)))"
  by (auto simp: send_order_def request_def Let_def emit_def log_order_def log_api_call_def
      log_error_trace_def split: sum.splits)

lemma place_limit_order_logs_subset:
  "set (logs w) \<subseteq> set (logs (snd (place_limit_order v cl symbol side quantity price tif ro po w)))"
  using send_order_logs_subset
  by (auto simp: place_limit_order_def Let_def split_def)

lemma neutral_level_logs_subset:
  "set (logs (snd (snd s))) \<subseteq> set (logs (snd (snd (neutral_level v cl symbol q cur p s))))"
  using place_limit_order_logs_subset
  by (cases s) (auto simp: neutral_level_def Let_def split_def split: option.splits)

lemma long_level_logs_subset:
  "set (logs (snd (snd s))) \<subseteq> set (logs (snd (snd (long_level v cl symbol q cur p s))))"
  using place_limit_order_logs_subset
  by (cases s) (auto simp: long_level_def Let_def split_def split: option.splits)

lemma short_level_logs_subset:
  "set (logs (snd (snd s))) \<subseteq> set (logs (snd (snd (short_level v cl symbol q cur p s))))"
  using place_limit_order_logs_subset
  by (cases s) (auto simp: short_level_def Let_def split_def split: option.splits)

lemma fold_logs_subset:
  fixes s :: "pydict list \<times> pydict list \<times> world"
  assumes "\<And>p s. set (logs (snd (snd s))) \<subseteq> set (logs (snd (snd (f p s))))"
  shows "set (logs (snd (snd s))) \<subseteq> set (logs (snd (snd (fold f ps s))))"
proof (induction ps arbitrary: s)
  case Nil
  then show ?case by simp
next
  case (Cons p ps)
  show ?case
    using assms[of s p] Cons.IH[of "f p s"] by auto
qed

lemma place_grid_levels_logs_subset:
  "set (logs w1) \<subseteq> set (logs (snd (snd (place_grid_levels v cl symbol q cur mode ps w1))))"
  unfolding place_grid_levels_def
  using fold_logs_subset[of "neutral_level v cl symbol q cur" "([], [], w1)" ps, OF neutral_level_logs_subset]
    fold_logs_subset[of "long_level v cl symbol q cur" "([], [], w1)" ps, OF long_level_logs_subset]
    fold_logs_subset[of "short_level v cl symbol q cur" "([], [], w1)" ps, OF short_level_logs_subset]
  by auto

lemma create_grid_orders_not_fetched_world:
  assumes l: "int_or grid_levels (default_grid_levels gc) = levels"
    and v1: "fst (validate_grid_parameters v lower_price upper_price levels)"
    and v2: "fst (validate_symbol symbol)"
    and sp: "\<not> (upper_price - lower_price) / of_int (levels - 1) / lower_price * 100 < min_spacing gc"
    and t: "fst (fetch_current_price fs cl symbol w) = Inl e"
  shows "create_grid_orders fs v gc cl symbol lower_price upper_price total_quantity grid_levels mode w =
    (None, log_error_trace ''get_current_price''
       (snd (fetch_current_price fs cl symbol
          (emit INFO ''Creating grid for {symbol}: Range: {lower_price}-{upper_price}, Levels: {grid_levels}, Spacing: {grid_spacing:.2f} ({spacing_percent:.2f}%), Qty/Level: {qty_per_level}''
             (if max_spacing gc < (upper_price - lower_price) / of_int (levels - 1) / lower_price * 100
              then emit WARNING ''Grid spacing ({spacing_percent:.2f}%) above recommended maximum ({self.max_spacing}%)'' w
              else w)))))"
proof -
  have f: "fst (fetch_current_price fs cl symbol w0) = Inl e" if "calls w0 = calls w" for w0
    using fetch_current_price_same_calls[OF that] t by simp
  show ?thesis
    unfolding create_grid_orders_def l Let_def split_def
    using v1 v2 sp by (simp add: f)
qed

text \<open>
  Claim C10. Let the grid parameters and the symbol be valid, the spacing not below
  the minimum and the ticker request succeed. With a mode that is none of
  \<open>neutral\<close>, \<open>long\<close> and \<open>short\<close> the call returns the result dictionary with no buy
  orders, no sell orders and \<open>total_orders = 0\<close>; the ticker request is the only
  request made, and no record of level ERROR is logged.
\<close>

theorem create_grid_orders_unknown_mode:
  assumes l: "int_or grid_levels (default_grid_levels gc) = levels"
    and v1: "fst (validate_grid_parameters v lower_price upper_price levels)"
    and v2: "fst (validate_symbol symbol)"
    and sp: "\<not> (upper_price - lower_price) / of_int (levels - 1) / lower_price * 100 < min_spacing gc"
    and t: "fst (fetch_current_price fs cl symbol w) = Inr current_price"
    and m: "mode \<noteq> ''neutral''" "mode \<noteq> ''long''" "mode \<noteq> ''short''"
  shows "fst (create_grid_orders fs v gc cl symbol lower_price upper_price total_quantity grid_levels mode w)
     = Some \<lparr>r_symbol = symbol, r_mode = mode, r_grid_levels = levels,
              r_lower_price = lower_price, r_upper_price = upper_price,
              r_current_price = current_price,
              r_grid_prices =
                generate_grid_prices v lower_price ((upper_price - lower_price) / of_int (levels - 1)) levels,
              r_buy_orders = [], r_sell_orders = [], r_total_orders = 0\<rparr> \<and>
   calls (snd (create_grid_orders fs v gc cl symbol lower_price upper_price total_quantity grid_levels
                 mode w)) = calls w @ [FuturesSymbolTicker symbol] \<and>
   filter (\<lambda>record. fst record = ERROR)
     (logs (snd (create_grid_orders fs v gc cl symbol lower_price upper_price total_quantity grid_levels
                   mode w)))
     = filter (\<lambda>record. fst record = ERROR) (logs w)"
  unfolding create_grid_orders_fetched[OF l v1 v2 sp t] Let_def
  using m by (simp add: fetch_current_price_calls fetch_current_price_logs place_grid_levels_def)

text \<open>
  Claim C7. Let the grid parameters and the symbol be valid. A spacing percent below
  the configured minimum makes the call return \<open>None\<close> with no request sent and the
  error logged. A spacing percent above the configured maximum (and not below the
  minimum) logs a warning and changes nothing else: the result and the requests sent
  are those of the same call under a maximum that the spacing does not exceed, and
  the result is a grid whenever the ticker request succeeds.
\<close>

theorem create_grid_orders_spacing_bounds:
  assumes l: "int_or grid_levels (default_grid_levels gc) = levels"
    and v1: "fst (validate_grid_parameters v lower_price upper_price levels)"
    and v2: "fst (validate_symbol symbol)"
    and sp: "spacing_percent = (upper_price - lower_price) / of_int (levels - 1) / lower_price * 100"
  shows
    "(spacing_percent < min_spacing gc \<longrightarrow>
        fst (create_grid_orders fs v gc cl symbol lower_price upper_price total_quantity grid_levels mode w)
          = None \<and>
        calls (snd (create_grid_orders fs v gc cl symbol lower_price upper_price total_quantity grid_levels
                 mode w)) = calls w \<and>
        logs (snd (create_grid_orders fs v gc cl symbol lower_price upper_price total_quantity grid_levels
                 mode w))
          = logs w @ [(ERROR, ''Grid spacing ({spacing_percent:.2f}%) below minimum ({self.min_spacing}%)'')]) \<and>
     (\<not> spacing_percent < min_spacing gc \<and> max_spacing gc < spacing_percent \<longrightarrow>
        (WARNING, ''Grid spacing ({spacing_percent:.2f}%) above recommended maximum ({self.max_spacing}%)'')
          \<in> set (logs (snd (create_grid_orders fs v gc cl symbol lower_price upper_price total_quantity
                              grid_levels mode w))) \<and>
        fst (create_grid_orders fs v gc cl symbol lower_price upper_price total_quantity grid_levels mode w)
          = fst (create_grid_orders fs v (gc\<lparr>max_spacing := spacing_percent\<rparr>) cl symbol lower_price
                   upper_price total_quantity grid_levels mode w) \<and>
        calls (snd (create_grid_orders fs v gc cl symbol lower_price upper_price total_quantity grid_levels
                 mode w))
          = calls (snd (create_grid_orders fs v (gc\<lparr>max_spacing := spacing_percent\<rparr>) cl symbol
                     lower_price upper_price total_quantity grid_levels mode w)) \<and>
        (\<forall>current_price. fst (fetch_current_price fs cl symbol w) = Inr current_price \<longrightarrow>
           fst (create_grid_orders fs v gc cl symbol lower_price upper_price total_quantity grid_levels
                  mode w) \<noteq> None))"
proof (intro conjI impI)
  assume low: "spacing_percent < min_spacing gc"
  show "fst (create_grid_orders fs v gc cl symbol lower_price upper_price total_quantity grid_levels mode w)
          = None"
    and "calls (snd (create_grid_orders fs v gc cl symbol lower_price upper_price total_quantity grid_levels
                 mode w)) = calls w"
    and "logs (snd (create_grid_orders fs v gc cl symbol lower_price upper_price total_quantity grid_levels
                 mode w))
          = logs w @ [(ERROR, ''Grid spacing ({spacing_percent:.2f}%) below minimum ({self.min_spacing}%)'')]"
    using low v1 v2 unfolding sp create_grid_orders_def l Let_def split_def by simp_all
next
  assume high: "\<not> spacing_percent < min_spacing gc \<and> max_spacing gc < spacing_percent"
  let ?gc = "gc\<lparr>max_spacing := spacing_percent\<rparr>"
  let ?warning = "(WARNING, ''Grid spacing ({spacing_percent:.2f}%) above recommended maximum ({self.max_spacing}%)'')"
  have l': "int_or grid_levels (default_grid_levels ?gc) = levels"
    using l by simp
  have sp1: "\<not> (upper_price - lower_price) / of_int (levels - 1) / lower_price * 100 < min_spacing gc"
    and sp2: "\<not> (upper_price - lower_price) / of_int (levels - 1) / lower_price * 100 < min_spacing ?gc"
    and hi: "max_spacing gc < (upper_price - lower_price) / of_int (levels - 1) / lower_price * 100"
    and nohi: "\<not> max_spacing ?gc < (upper_price - lower_price) / of_int (levels - 1) / lower_price * 100"
    using high unfolding sp by simp_all
  let ?run = "create_grid_orders fs v gc cl symbol lower_price upper_price total_quantity grid_levels mode w"
  let ?run' = "create_grid_orders fs v ?gc cl symbol lower_price upper_price total_quantity grid_levels mode w"
  have "?warning \<in> set (logs (snd ?run)) \<and> fst ?run = fst ?run' \<and> calls (snd ?run) = calls (snd ?run') \<and>
      (\<forall>current_price. fst (fetch_current_price fs cl symbol w) = Inr current_price \<longrightarrow> fst ?run \<noteq> None)"
  proof (cases "fst (fetch_current_price fs cl symbol w)")
    case (Inl e)
    show ?thesis
      unfolding create_grid_orders_not_fetched_world[OF l v1 v2 sp1 Inl]
        create_grid_orders_not_fetched_world[OF l' v1 v2 sp2 Inl]
      using hi nohi Inl
      by (simp add: fetch_current_price_calls fetch_current_price_logs log_error_trace_def)
  next
    case (Inr current_price)
    let ?w0 = "emit INFO ''Creating grid for {symbol}: Range: {lower_price}-{upper_price}, Levels: {grid_levels}, Spacing: {grid_spacing:.2f} ({spacing_percent:.2f}%), Qty/Level: {qty_per_level}''
         (emit WARNING ''Grid spacing ({spacing_percent:.2f}%) above recommended maximum ({self.max_spacing}%)'' w)"
    let ?w0' = "emit INFO ''Creating grid for {symbol}: Range: {lower_price}-{upper_price}, Levels: {grid_levels}, Spacing: {grid_spacing:.2f} ({spacing_percent:.2f}%), Qty/Level: {qty_per_level}'' w"
    let ?w1 = "emit INFO ''Current price: {current_price}'' (snd (fetch_current_price fs cl symbol ?w0))"
    let ?w1' = "emit INFO ''Current price: {current_price}'' (snd (fetch_current_price fs cl symbol ?w0'))"
    have c: "calls ?w1 = calls ?w1'"
      by (simp add: fetch_current_price_calls)
    have w: "?warning \<in> set (logs ?w1)"
      by (simp add: fetch_current_price_logs)
    note same = place_grid_levels_same_calls[OF c, of v cl symbol
        "format_quantity v (total_quantity / of_int levels)" current_price mode
        "generate_grid_prices v lower_price ((upper_price - lower_price) / of_int (levels - 1)) levels"]
    note sub = place_grid_levels_logs_subset[of ?w1 v cl symbol
        "format_quantity v (total_quantity / of_int levels)" current_price mode
        "generate_grid_prices v lower_price ((upper_price - lower_price) / of_int (levels - 1)) levels"]
    show ?thesis
      unfolding create_grid_orders_fetched[OF l v1 v2 sp1 Inr]
        create_grid_orders_fetched[OF l' v1 v2 sp2 Inr] Let_def
      using hi nohi Inr same sub w
      by (simp add: subset_iff)
  qed
  then show "?warning \<in> set (logs (snd ?run))" and "fst ?run = fst ?run'"
    and "calls (snd ?run) = calls (snd ?run')"
    and "\<forall>current_price. fst (fetch_current_price fs cl symbol w) = Inr current_price \<longrightarrow> fst ?run \<noteq> None"
    by blast+
qed
















theorem create_grid_orders_unknown_mode_witness:
  "fst (create_grid_orders no_float_of_string default_validator default_grid_config
          (filling_exchange 50000) ''BTCUSDT'' 49000 51000 (3 / 1000) (Some 3) ''sideways'' empty_world)
     = Some \<lparr>r_symbol = ''BTCUSDT'', r_mode = ''sideways'', r_grid_levels = 3,
              r_lower_price = 49000, r_upper_price = 51000, r_current_price = 50000,
              r_grid_prices = [49000, 50000, 51000],
              r_buy_orders = [], r_sell_orders = [], r_total_orders = 0\<rparr> \<and>
   calls (snd (create_grid_orders no_float_of_string default_validator default_grid_config
          (filling_exchange 50000) ''BTCUSDT'' 49000 51000 (3 / 1000) (Some 3) ''sideways'' empty_world))
     = [FuturesSymbolTicker ''BTCUSDT'']"
proof -
  have l: "int_or (Some 3) (default_grid_levels default_grid_config) = 3"
    by code_simp
  have v1: "fst (validate_grid_parameters default_validator 49000 51000 3)"
    by code_simp
  have v2: "fst (validate_symbol ''BTCUSDT'')"
    by code_simp
  have sp: "\<not> (51000 - 49000) / of_int (3 - 1) / 49000 * 100 < min_spacing default_grid_config"
    by code_simp
  have t: "fst (fetch_current_price no_float_of_string (filling_exchange 50000) ''BTCUSDT''
                  empty_world) = Inr 50000"
    by code_simp
  have m: "''sideways'' \<noteq> ''neutral''" "''sideways'' \<noteq> ''long''" "''sideways'' \<noteq> ''short''"
    by simp_all
  have g: "generate_grid_prices default_validator 49000 ((51000 - 49000) / of_int (3 - 1)) 3
             = [49000, 50000, 51000]"
    by code_simp
  have c: "calls empty_world = []"
    by (simp add: empty_world_def)
  note u = create_grid_orders_unknown_mode[where total_quantity = "3 / 1000", OF l v1 v2 sp t m,
      unfolded g c append_Nil]
  from u show ?thesis by blast
qed

theorem create_grid_orders_spacing_bounds_witness:
  "fst (create_grid_orders no_float_of_string default_validator default_grid_config
          (filling_exchange 50000) ''BTCUSDT'' 49000 49100 (3 / 1000) (Some 3) ''neutral'' empty_world)
     = None \<and>
   calls (snd (create_grid_orders no_float_of_string default_validator default_grid_config
          (filling_exchange 50000) ''BTCUSDT'' 49000 49100 (3 / 1000) (Some 3) ''neutral'' empty_world))
     = [] \<and>
   (WARNING, ''Grid spacing ({spacing_percent:.2f}%) above recommended maximum ({self.max_spacing}%)'')
     \<in> set (logs (snd (create_grid_orders no_float_of_string default_validator default_grid_config
          (filling_exchange 50000) ''BTCUSDT'' 45000 55000 (3 / 1000) (Some 3) ''neutral'' empty_world))) \<and>
   fst (create_grid_orders no_float_of_string default_validator default_grid_config
          (filling_exchange 50000) ''BTCUSDT'' 45000 55000 (3 / 1000) (Some 3) ''neutral'' empty_world)
     \<noteq> None"
proof -
  have l: "int_or (Some 3) (default_grid_levels default_grid_config) = 3"
    by code_simp
  have va: "fst (validate_grid_parameters default_validator 49000 49100 3)"
    and vb: "fst (validate_grid_parameters default_validator 45000 55000 3)"
    by code_simp+
  have v2: "fst (validate_symbol ''BTCUSDT'')"
    by code_simp
  have low: "(49100 - 49000) / of_int (3 - 1) / 49000 * 100 < min_spacing default_grid_config"
    by code_simp
  have high: "\<not> (55000 - 45000) / of_int (3 - 1) / 45000 * 100 < min_spacing default_grid_config \<and>
      max_spacing default_grid_config < (55000 - 45000) / of_int (3 - 1) / 45000 * 100"
    by code_simp
  have t: "fst (fetch_current_price no_float_of_string (filling_exchange 50000) ''BTCUSDT''
                  empty_world) = Inr 50000"
    by code_simp
  have c: "calls empty_world = []"
    by (simp add: empty_world_def)
  note a = create_grid_orders_spacing_bounds[where fs = no_float_of_string
      and cl = "filling_exchange 50000" and w = empty_world and mode = "''neutral''"
      and total_quantity = "3 / 1000", OF l va v2 refl, THEN conjunct1, THEN mp, OF low, unfolded c]
  note b = create_grid_orders_spacing_bounds[where fs = no_float_of_string
      and cl = "filling_exchange 50000" and w = empty_world and mode = "''neutral''"
      and total_quantity = "3 / 1000", OF l vb v2 refl, THEN conjunct2, THEN mp, OF high]
  note b1 = b[THEN conjunct1]
  note b4 = b[THEN conjunct2, THEN conjunct2, THEN conjunct2, THEN spec, THEN mp, OF t]
  from a b1 b4 show ?thesis by blast
qed


section \<open>Properties of the TWAP scheduler\<close>












lemma count_records_emit:
  "count_records r (logs (emit l m w)) = count_records r (logs w) + (if (l, m) = r then 1 else 0)"
  by (simp add: count_records_def emit_def)








lemma py_float_numeric: "numeric x \<Longrightarrow> py_float fs x = Inr (num_value x)"
  by (cases x) auto





lemma dict_get_avgPrice_numeric:
  "numeric (dict_get d ''avgPrice'' (PInt 0)) \<Longrightarrow> truthy (dict_get d ''avgPrice'' PNone) \<Longrightarrow>
   \<exists>r. py_float fs (dict_get d ''avgPrice'' (PInt 0)) = Inr r"
  by (simp add: py_float_numeric)















text \<open>
  The synchronous method adds the \<open>executedQty\<close> fields without converting them. When
  the exchange reports the quantity as a string, the sum raises \<open>TypeError\<close> at the
  last chunk, where the asynchronous method converts the string with \<open>float\<close>.
\<close>

lemma last_chunk_size_string:
  "last_chunk_size v total_quantity [[(''executedQty'', PStr s)]] = Inl TypeError \<and>
   (fs s = Some r \<longrightarrow>
      last_chunk_size_async fs v total_quantity [[(''executedQty'', PStr s)]]
        = Inr (format_quantity v (total_quantity - r)))"
  by (simp add: last_chunk_size_def last_chunk_size_async_def py_sum_def dict_get_def float_sum_def)




end
